theory Spec2Isabelle
  imports Complex_Main
begin

section \<open>JavaScript values\<close>

text \<open>
  The webhook works on the value \<^verbatim>\<open>JSON.parse\<close> returns. An object is the list of its
  entries in the order \<^verbatim>\<open>Object.entries\<close> enumerates them; a property read takes the
  entry of that key. \<^verbatim>\<open>undefined\<close> is \<open>None\<close> of \<open>json option\<close>, \<^verbatim>\<open>null\<close> is \<open>JNull\<close>.
  Strings are lists of code units below 256.
\<close>

datatype json =
    JNull
  | JBool bool
  | JNum rat
  | JStr string
  | JArr "json list"
  | JObj "(string \<times> json) list"

text \<open>
  \<^verbatim>\<open>v.k\<close> for a value \<open>v\<close> that is neither \<^verbatim>\<open>null\<close> nor \<^verbatim>\<open>undefined\<close>, and a key that no
  prototype defines (the only keys the handlers read): an object gives its entry, an
  array or a primitive gives \<^verbatim>\<open>undefined\<close>.
\<close>

fun jget :: "json \<Rightarrow> string \<Rightarrow> json option" where
  "jget (JObj kvs) k = map_of kvs k"
| "jget v k = None"

fun truthy :: "json option \<Rightarrow> bool" where
  "truthy None = False"
| "truthy (Some JNull) = False"
| "truthy (Some (JBool b)) = b"
| "truthy (Some (JNum n)) = (n \<noteq> 0)"
| "truthy (Some (JStr s)) = (s \<noteq> [])"
| "truthy (Some (JArr xs)) = True"
| "truthy (Some (JObj kvs)) = True"

text \<open>\<^verbatim>\<open>a || b\<close>\<close>

definition or_else :: "json option \<Rightarrow> json option \<Rightarrow> json option" where
  "or_else a b = (if truthy a then a else b)"

text \<open>
  \<^verbatim>\<open>String.prototype.trim\<close>: the white space of ECMAScript among the code units below 256
  is TAB, LF, VT, FF, CR, SP and NBSP.
\<close>

definition is_white_space :: "char \<Rightarrow> bool" where
  "is_white_space c =
     (c = CHR 0x09 \<or> c = CHR 0x0A \<or> c = CHR 0x0B \<or> c = CHR 0x0C \<or> c = CHR 0x0D
      \<or> c = CHR 0x20 \<or> c = CHR 0xA0)"

definition trim :: "string \<Rightarrow> string" where
  "trim s = rev (dropWhile is_white_space (rev (dropWhile is_white_space s)))"

section \<open>CaptionNormalizer: extractCaptionText\<close>

text \<open>\<^verbatim>\<open>c.text || c.caption || c.content\<close>\<close>

definition text_like :: "json \<Rightarrow> json option" where
  "text_like c = or_else (or_else (jget c ''text'') (jget c ''caption'')) (jget c ''content'')"

text \<open>\<^verbatim>\<open>typeof d === 'string' && d.trim().length > 0\<close>, giving the string.\<close>

fun usable :: "json option \<Rightarrow> string option" where
  "usable (Some (JStr s)) = (if 0 < length (trim s) then Some s else None)"
| "usable v = None"

text \<open>The direct known location: \<^verbatim>\<open>cc.text || cc.caption || cc.content\<close>.\<close>

definition direct_text :: "json \<Rightarrow> string option" where
  "direct_text cc = usable (text_like cc)"

text \<open>One level deeper, under \<^verbatim>\<open>cc.payload || cc.data\<close>.\<close>

definition nested_text :: "json \<Rightarrow> string option" where
  "nested_text cc =
     (let payload = or_else (jget cc ''payload'') (jget cc ''data'')
      in case payload of
           None \<Rightarrow> None
         | Some p \<Rightarrow> if truthy payload then usable (text_like p) else None)"

text \<open>\<^verbatim>\<open>cc = o.closed_caption || o.caption\<close>\<close>

definition caption_part :: "json \<Rightarrow> json option" where
  "caption_part o' = or_else (jget o' ''closed_caption'') (jget o' ''caption'')"

text \<open>The block under \<^verbatim>\<open>if (cc)\<close>.\<close>

definition known_locations :: "json \<Rightarrow> string option" where
  "known_locations o' =
     (case caption_part o' of
        None \<Rightarrow> None
      | Some c \<Rightarrow>
          if truthy (Some c) then
            (case direct_text c of
               Some s \<Rightarrow> Some s
             | None \<Rightarrow> nested_text c)
          else None)"

definition text_keys :: "string list" where
  "text_keys = [''text'', ''caption'', ''content'']"

text \<open>
  \<open>extractCaptionText\<close> returns \<^verbatim>\<open>null\<close> (\<open>None\<close>) for a falsy value and for a value that is
  not an object (\<^verbatim>\<open>typeof null\<close> is \<^verbatim>\<open>'object'\<close>, and \<^verbatim>\<open>null\<close> is falsy). Otherwise it looks
  at the known locations and then runs the loop over \<^verbatim>\<open>Object.entries(o)\<close>, which is
  \<open>scan_entries\<close> for an object and \<open>scan_elems\<close> for an array: the keys of an array are
  its indices, none of them in \<open>text_keys\<close>, so the loop only descends into the elements
  that are objects. The recursive result is returned when it is truthy.
  Every operation of the body is defined on every value it meets, so the \<^verbatim>\<open>catch\<close> of the
  source is never entered for a parsed payload.
\<close>

function extractCaptionText :: "json \<Rightarrow> string option"
  and scan_entries :: "(string \<times> json) list \<Rightarrow> string option"
  and scan_elems :: "json list \<Rightarrow> string option"
where
  "extractCaptionText (JObj kvs) =
     (case known_locations (JObj kvs) of
        Some s \<Rightarrow> Some s
      | None \<Rightarrow> scan_entries kvs)"
| "extractCaptionText (JArr xs) =
     (case known_locations (JArr xs) of
        Some s \<Rightarrow> Some s
      | None \<Rightarrow> scan_elems xs)"
| "extractCaptionText JNull = None"
| "extractCaptionText (JBool b) = None"
| "extractCaptionText (JNum n) = None"
| "extractCaptionText (JStr s) = None"
| "scan_entries [] = None"
| "scan_entries ((k, JStr s) # rest) =
     (if k \<in> set text_keys \<and> 0 < length (trim s) then Some s else scan_entries rest)"
| "scan_entries ((k, JObj kvs) # rest) =
     (case extractCaptionText (JObj kvs) of
        Some s \<Rightarrow> if s \<noteq> [] then Some s else scan_entries rest
      | None \<Rightarrow> scan_entries rest)"
| "scan_entries ((k, JArr xs) # rest) =
     (case extractCaptionText (JArr xs) of
        Some s \<Rightarrow> if s \<noteq> [] then Some s else scan_entries rest
      | None \<Rightarrow> scan_entries rest)"
| "scan_entries ((k, JNull) # rest) = scan_entries rest"
| "scan_entries ((k, JBool b) # rest) = scan_entries rest"
| "scan_entries ((k, JNum n) # rest) = scan_entries rest"
| "scan_elems [] = None"
| "scan_elems (JObj kvs # rest) =
     (case extractCaptionText (JObj kvs) of
        Some s \<Rightarrow> if s \<noteq> [] then Some s else scan_elems rest
      | None \<Rightarrow> scan_elems rest)"
| "scan_elems (JArr xs # rest) =
     (case extractCaptionText (JArr xs) of
        Some s \<Rightarrow> if s \<noteq> [] then Some s else scan_elems rest
      | None \<Rightarrow> scan_elems rest)"
| "scan_elems (JNull # rest) = scan_elems rest"
| "scan_elems (JBool b # rest) = scan_elems rest"
| "scan_elems (JNum n # rest) = scan_elems rest"
| "scan_elems (JStr s # rest) = scan_elems rest"
  by pat_completeness auto
termination
  by (relation "measure (\<lambda>x. case x of
          Inl j \<Rightarrow> 2 * size j
        | Inr (Inl kvs) \<Rightarrow> 2 * size_list (size_prod (\<lambda>k. 0) size) kvs + 1
        | Inr (Inr xs) \<Rightarrow> 2 * size_list size xs + 1)") auto

text \<open>
  For the statement of the contract: every string that is the value of a field keyed
  \<^verbatim>\<open>text\<close>, \<^verbatim>\<open>caption\<close> or \<^verbatim>\<open>content\<close>, anywhere in the payload, in enumeration order.
\<close>

function (sequential) text_fields :: "json \<Rightarrow> string list"
  and text_fields_entries :: "(string \<times> json) list \<Rightarrow> string list"
  and text_fields_elems :: "json list \<Rightarrow> string list"
where
  "text_fields (JObj kvs) = text_fields_entries kvs"
| "text_fields (JArr xs) = text_fields_elems xs"
| "text_fields v = []"
| "text_fields_entries [] = []"
| "text_fields_entries ((k, JStr s) # rest) =
     (if k \<in> set text_keys then [s] else []) @ text_fields_entries rest"
| "text_fields_entries ((k, v) # rest) = text_fields v @ text_fields_entries rest"
| "text_fields_elems [] = []"
| "text_fields_elems (v # rest) = text_fields v @ text_fields_elems rest"
  by pat_completeness auto
termination
  by (relation "measure (\<lambda>x. case x of
          Inl j \<Rightarrow> 2 * size j
        | Inr (Inl kvs) \<Rightarrow> 2 * size_list (size_prod (\<lambda>k. 0) size) kvs + 1
        | Inr (Inr xs) \<Rightarrow> 2 * size_list size xs + 1)") auto

text \<open>Payloads with a caption in each of the three places, and one with none.\<close>

definition payload_direct :: json where
  "payload_direct =
     JObj [(''type'', JStr ''call.closed_caption''),
           (''closed_caption'', JObj [(''text'', JStr ''hello there''), (''user_id'', JStr ''u1'')])]"

definition payload_nested :: json where
  "payload_nested =
     JObj [(''caption'', JObj [(''text'', JNum 0), (''caption'', JStr ''  ''),
                               (''data'', JObj [(''content'', JStr ''deep'')])])]"

definition payload_fallback :: json where
  "payload_fallback =
     JObj [(''items'', JArr [JStr ''x'', JObj [(''caption'', JStr ''found'')]]),
           (''text'', JStr ''later'')]"

definition payload_blank :: json where
  "payload_blank = JObj [(''closed_caption'', JObj []), (''text'', JStr '' ''), (''n'', JNum 3)]"

section \<open>GeminiVoiceService: the session store\<close>

text \<open>
  A value thrown or a rejected promise. \<open>TypeError\<close> is the error of a property read on
  \<^verbatim>\<open>null\<close> or \<^verbatim>\<open>undefined\<close> and of a call of something that is not a function.
\<close>

datatype error = TypeError | Error string

record message =
  role :: string
  content :: string

text \<open>
  An entry of \<^verbatim>\<open>audioResponses\<close>: \<^verbatim>\<open>{ text, audioUrl, timestamp }\<close>, the field \<^verbatim>\<open>text\<close> under
  the name \<open>reply_text\<close>.
\<close>

record audio_response =
  reply_text :: string
  audioUrl :: string
  timestamp :: nat

text \<open>\<^verbatim>\<open>interface GeminiVoiceSession\<close>. The \<^verbatim>\<open>call\<close> object is kept by its id.\<close>

record session =
  call :: string
  agentUserId :: string
  instructions :: string
  conversationHistory :: "message list"
  isProcessing :: bool
  audioResponses :: "audio_response list"

text \<open>
  The meeting and agent rows the webhook reads and writes. The schema is not part of the
  sources; the columns are the ones the handlers use, the statuses the five of the
  specification. \<open>meetings\<close> and \<open>agents\<close> are keyed by the \<^verbatim>\<open>id\<close> column.
\<close>

datatype meeting_status = Upcoming | Active | Processing | Completed | Cancelled

record meeting =
  agentId :: string
  status :: meeting_status
  startedAt :: "nat option"
  endedAt :: "nat option"
  transcriptUrl :: "json option"
  recordingUrl :: "json option"

record agent =
  agent_name :: string
  agent_instructions :: string

text \<open>
  The state: the \<^verbatim>\<open>sessions\<close> map of the service singleton, whose values are session
  objects held by reference (\<open>heap\<close> gives the object at a reference, \<open>next_ref\<close> is the next
  unused one), and the two tables.
\<close>

record world =
  sessions :: "string \<rightharpoonup> nat"
  heap :: "nat \<Rightarrow> session"
  next_ref :: nat
  meetings :: "string \<rightharpoonup> meeting"
  agents :: "string \<rightharpoonup> agent"

text \<open>
  What lies outside the program, for one request: the language model
  (\<^verbatim>\<open>model.generateContent(prompt)\<close> and \<^verbatim>\<open>response.text()\<close>), the speech client
  (\<open>None\<close> when \<^verbatim>\<open>getTTSClient()\<close> is \<^verbatim>\<open>null\<close>; otherwise \<^verbatim>\<open>synthesizeSpeech\<close>, giving
  \<^verbatim>\<open>audioContent\<close>, \<open>None\<close> when it is falsy), the asset store (the \<^verbatim>\<open>secure_url\<close> of the result,
  \<open>None\<close> when it has none), the clock, and for the webhook the signature check,
  \<^verbatim>\<open>JSON.parse\<close> (\<open>None\<close> when it throws), whether storage and the downstream notification
  answer, the two attempts of \<^verbatim>\<open>upsertUsers\<close>, the transcript fetch, and the string
  conversion of the language (\<^verbatim>\<open>String(v)\<close>, which a template literal applies to a value
  that is not a string).
\<close>

record services =
  api_key_set :: bool
  generateContent :: "string \<Rightarrow> error + string"
  ttsClient :: "(string \<Rightarrow> error + string option) option"
  upload_stream :: "string \<Rightarrow> string \<Rightarrow> error + string option"
  now :: nat
  verifyWebhook :: "string \<Rightarrow> string \<Rightarrow> bool"
  json_parse :: "string \<Rightarrow> json option"
  storage_up :: bool
  inngest_up :: bool
  upsert_first :: bool
  upsert_retry :: bool
  fetch_text :: "json option \<Rightarrow> error + string"
  to_text :: "json \<Rightarrow> string"

definition update_session :: "nat \<Rightarrow> (session \<Rightarrow> session) \<Rightarrow> world \<Rightarrow> world" where
  "update_session r f w = w\<lparr>heap := (heap w)(r := f (heap w r))\<rparr>"

definition hasSession :: "world \<Rightarrow> string \<Rightarrow> bool" where
  "hasSession w callId = (sessions w callId \<noteq> None)"

text \<open>\<^verbatim>\<open>this.sessions.set(call.id, { ... })\<close> with a new object.\<close>

definition startSession :: "world \<Rightarrow> string \<Rightarrow> string \<Rightarrow> string \<Rightarrow> world" where
  "startSession w callId agent_id instr =
     w\<lparr>sessions := (sessions w)(callId \<mapsto> next_ref w),
       heap := (heap w)(next_ref w :=
         \<lparr>call = callId, agentUserId = agent_id, instructions = instr,
          conversationHistory = [], isProcessing = False, audioResponses = []\<rparr>),
       next_ref := Suc (next_ref w)\<rparr>"

definition endSession :: "world \<Rightarrow> string \<Rightarrow> world" where
  "endSession w callId = w\<lparr>sessions := (sessions w)(callId := None)\<rparr>"

section \<open>GeminiVoiceService: one turn\<close>

definition newline :: string where
  "newline = [CHR 0x0A]"

fun join :: "string \<Rightarrow> string list \<Rightarrow> string" where
  "join sep [] = []"
| "join sep [x] = x"
| "join sep (x # y # ys) = x @ sep @ join sep (y # ys)"

definition render_prompt :: "string \<Rightarrow> message list \<Rightarrow> string" where
  "render_prompt instr history =
     (let systemPrompt = instr @ newline @ newline
            @ ''You are having a conversation. Respond naturally and concisely.'';
          conversationParts =
            map (\<lambda>msg. (if role msg = ''user'' then ''User'' else ''Assistant'')
                        @ '': '' @ content msg) history
      in systemPrompt @ newline @ newline @ ''Conversation:'' @ newline
           @ join (newline @ newline) conversationParts
           @ newline @ newline @ ''Assistant:'')"

definition generateGeminiResponse :: "services \<Rightarrow> string \<Rightarrow> message list \<Rightarrow> error + string" where
  "generateGeminiResponse sv instr history =
     (if \<not> api_key_set sv
      then Inl (Error ''GEMINI_API_KEY or GOOGLE_GENAI_API_KEY is required'')
      else case generateContent sv (render_prompt instr history) of
             Inl e \<Rightarrow> Inl e
           | Inr reply \<Rightarrow>
               Inr (if reply \<noteq> [] then reply
                    else ''I apologize, but I could not generate a response.''))"

definition textToSpeech :: "services \<Rightarrow> string \<Rightarrow> error + string option" where
  "textToSpeech sv reply =
     (case ttsClient sv of
        None \<Rightarrow> Inr None
      | Some synthesizeSpeech \<Rightarrow>
          (case synthesizeSpeech reply of
             Inl e \<Rightarrow> Inl e
           | Inr None \<Rightarrow> Inl (Error ''Failed to generate audio from text'')
           | Inr (Some audioContent) \<Rightarrow> Inr (Some audioContent)))"

definition uploadToCloudinary :: "services \<Rightarrow> string \<Rightarrow> string \<Rightarrow> error + string" where
  "uploadToCloudinary sv buffer callId =
     (case upload_stream sv buffer callId of
        Inl e \<Rightarrow> Inl e
      | Inr None \<Rightarrow> Inl (Error ''Cloudinary upload failed to return URL'')
      | Inr (Some secure_url) \<Rightarrow>
          if secure_url \<noteq> [] then Inr secure_url
          else Inl (Error ''Cloudinary upload failed to return URL''))"

definition push_message :: "string \<Rightarrow> string \<Rightarrow> session \<Rightarrow> session" where
  "push_message r c s =
     s\<lparr>conversationHistory := conversationHistory s @ [\<lparr>role = r, content = c\<rparr>]\<rparr>"

definition push_audio :: "string \<Rightarrow> string \<Rightarrow> nat \<Rightarrow> session \<Rightarrow> session" where
  "push_audio reply url t s =
     s\<lparr>audioResponses := audioResponses s
          @ [\<lparr>reply_text = reply, audioUrl = url, timestamp = t\<rparr>]\<rparr>"

text \<open>
  The body of the \<^verbatim>\<open>try\<close> of \<open>processTranscription\<close>, on the session object at \<open>r\<close>: the
  error that leaves it, if any, and the state it leaves. The inner \<^verbatim>\<open>catch (saveError)\<close>
  only logs, so a failed upload leaves the \<^verbatim>\<open>try\<close> normally. A \<^verbatim>\<open>Buffer\<close> is an object
  and is truthy, whatever its length.
\<close>

definition turn_body ::
  "services \<Rightarrow> world \<Rightarrow> nat \<Rightarrow> string \<Rightarrow> string \<Rightarrow> (error + unit) \<times> world" where
  "turn_body sv w r callId transcriptionText =
     (let w1 = update_session r (push_message ''user'' transcriptionText) w
      in case generateGeminiResponse sv (instructions (heap w1 r))
                (conversationHistory (heap w1 r)) of
           Inl e \<Rightarrow> (Inl e, w1)
         | Inr geminiResponse \<Rightarrow>
             (let w2 = update_session r (push_message ''assistant'' geminiResponse) w1
              in case textToSpeech sv geminiResponse of
                   Inl e \<Rightarrow> (Inl e, w2)
                 | Inr (Some audioBuffer) \<Rightarrow>
                     (case uploadToCloudinary sv audioBuffer callId of
                        Inl saveError \<Rightarrow> (Inr (), w2)
                      | Inr url \<Rightarrow>
                          (Inr (), update_session r (push_audio geminiResponse url (now sv)) w2))
                 | Inr None \<Rightarrow>
                     (Inr (), update_session r (push_audio geminiResponse [] (now sv)) w2)))"

text \<open>
  \<open>processTranscription\<close>: the two guards, the flag, the \<^verbatim>\<open>try\<close>, the \<^verbatim>\<open>catch\<close> (which logs
  and swallows the error) and the \<^verbatim>\<open>finally\<close>. The first component is how the call ends:
  \<open>Inr ()\<close> when the promise is fulfilled, \<open>Inl e\<close> when it is rejected with \<open>e\<close>.
\<close>

definition processTranscription ::
  "services \<Rightarrow> world \<Rightarrow> string \<Rightarrow> string \<Rightarrow> string \<Rightarrow> (error + unit) \<times> world" where
  "processTranscription sv w callId transcriptionText speakerId =
     (case sessions w callId of
        None \<Rightarrow> (Inr (), w)
      | Some r \<Rightarrow>
          if isProcessing (heap w r) then (Inr (), w)
          else if speakerId = agentUserId (heap w r) then (Inr (), w)
          else
            (let w1 = update_session r (\<lambda>s. s\<lparr>isProcessing := True\<rparr>) w;
                 (outcome, w2) = turn_body sv w1 r callId transcriptionText
             in (Inr (), update_session r (\<lambda>s. s\<lparr>isProcessing := False\<rparr>) w2)))"

text \<open>
  The webhook passes values of type \<^verbatim>\<open>any\<close> to \<open>processTranscription\<close>, so the value that
  arrives as \<^verbatim>\<open>speakerId\<close> may be any truthy value. One that is not a string is never
  \<^verbatim>\<open>===\<close> the agent's id (a string), and \<^verbatim>\<open>speakerId\<close> is read nowhere else: the call then is
  the one of \<open>processTranscription\<close> without the second guard.
\<close>

definition processTranscription_any ::
  "services \<Rightarrow> world \<Rightarrow> string \<Rightarrow> string \<Rightarrow> json \<Rightarrow> (error + unit) \<times> world" where
  "processTranscription_any sv w callId transcriptionText speaker =
     (case speaker of
        JStr speakerId \<Rightarrow> processTranscription sv w callId transcriptionText speakerId
      | _ \<Rightarrow>
          (case sessions w callId of
             None \<Rightarrow> (Inr (), w)
           | Some r \<Rightarrow>
               if isProcessing (heap w r) then (Inr (), w)
               else
                 (let w1 = update_session r (\<lambda>s. s\<lparr>isProcessing := True\<rparr>) w;
                      (outcome, w2) = turn_body sv w1 r callId transcriptionText
                  in (Inr (), update_session r (\<lambda>s. s\<lparr>isProcessing := False\<rparr>) w2))))"

section \<open>One turn, segment by segment\<close>

text \<open>
  An \<^verbatim>\<open>async\<close> function runs without interruption from its call to its first \<^verbatim>\<open>await\<close>, and
  from each \<^verbatim>\<open>await\<close> to the next; other code of the process runs only while it is
  suspended. \<open>processTranscription\<close> has three \<^verbatim>\<open>await\<close>s, so a turn is in one of the
  following places: called and not yet run; suspended on \<open>generateGeminiResponse\<close>, on
  \<open>textToSpeech\<close> or on \<open>uploadToCloudinary\<close> (holding the session object \<open>r\<close>, and with the
  result the awaited promise settles with); or returned. There is no \<^verbatim>\<open>await\<close> between the
  read of \<open>isProcessing\<close> in the guard and the assignment \<^verbatim>\<open>session.isProcessing = true\<close>:
  both belong to the first segment.
\<close>

datatype turn =
    Called string string string
  | AwaitReply nat string string "error + string"
  | AwaitSpeech nat string string string "error + string option"
  | AwaitUpload nat string string string "error + string"
  | Returned

text \<open>The \<^verbatim>\<open>finally\<close> block.\<close>

definition release :: "nat \<Rightarrow> world \<Rightarrow> world" where
  "release r w = update_session r (\<lambda>s. s\<lparr>isProcessing := False\<rparr>) w"

text \<open>One segment of a turn, in the state \<open>w\<close> the process is in when the segment starts.\<close>

fun resume :: "services \<Rightarrow> world \<Rightarrow> turn \<Rightarrow> world \<times> turn" where
  "resume sv w (Called callId transcriptionText speakerId) =
     (case sessions w callId of
        None \<Rightarrow> (w, Returned)
      | Some r \<Rightarrow>
          if isProcessing (heap w r) then (w, Returned)
          else if speakerId = agentUserId (heap w r) then (w, Returned)
          else
            (let w1 = update_session r (\<lambda>s. s\<lparr>isProcessing := True\<rparr>) w;
                 w2 = update_session r (push_message ''user'' transcriptionText) w1
             in (w2, AwaitReply r callId transcriptionText
                       (generateGeminiResponse sv (instructions (heap w2 r))
                          (conversationHistory (heap w2 r))))))"
| "resume sv w (AwaitReply r callId t (Inl e)) = (release r w, Returned)"
| "resume sv w (AwaitReply r callId t (Inr geminiResponse)) =
     (update_session r (push_message ''assistant'' geminiResponse) w,
      AwaitSpeech r callId t geminiResponse (textToSpeech sv geminiResponse))"
| "resume sv w (AwaitSpeech r callId t reply (Inl e)) = (release r w, Returned)"
| "resume sv w (AwaitSpeech r callId t reply (Inr None)) =
     (release r (update_session r (push_audio reply [] (now sv)) w), Returned)"
| "resume sv w (AwaitSpeech r callId t reply (Inr (Some audioBuffer))) =
     (w, AwaitUpload r callId t reply (uploadToCloudinary sv audioBuffer callId))"
| "resume sv w (AwaitUpload r callId t reply (Inl saveError)) = (release r w, Returned)"
| "resume sv w (AwaitUpload r callId t reply (Inr url)) =
     (release r (update_session r (push_audio reply url (now sv)) w), Returned)"
| "resume sv w Returned = (w, Returned)"

text \<open>A turn that nothing interrupts: its (at most four) segments one after the other.\<close>

definition run_alone :: "services \<Rightarrow> world \<Rightarrow> turn \<Rightarrow> world \<times> turn" where
  "run_alone sv w t =
     (let (w1, t1) = resume sv w t; (w2, t2) = resume sv w1 t1; (w3, t3) = resume sv w2 t2
      in resume sv w3 t3)"

text \<open>
  Two invocations in one process. A schedule says, step by step, which of the two runs
  its next segment and what the environment answers then.
\<close>

datatype who = First | Second

fun interleave ::
  "(who \<times> services) list \<Rightarrow> world \<times> turn \<times> turn \<Rightarrow> world \<times> turn \<times> turn" where
  "interleave [] cfg = cfg"
| "interleave ((First, sv) # rest) (w, a, b) =
     (let (w', a') = resume sv w a in interleave rest (w', a', b))"
| "interleave ((Second, sv) # rest) (w, a, b) =
     (let (w', b') = resume sv w b in interleave rest (w', a, b'))"

text \<open>The turn is past the guard on the session object \<open>r\<close> and has not returned.\<close>

fun in_flight :: "turn \<Rightarrow> nat \<Rightarrow> bool" where
  "in_flight (AwaitReply r' c t p) r = (r' = r)"
| "in_flight (AwaitSpeech r' c t g p) r = (r' = r)"
| "in_flight (AwaitUpload r' c t g p) r = (r' = r)"
| "in_flight (Called c t s) r = False"
| "in_flight Returned r = False"

definition single_flight_inv ::
  "nat \<Rightarrow> string \<Rightarrow> turn \<Rightarrow> turn \<Rightarrow> world \<times> turn \<times> turn \<Rightarrow> bool" where
  "single_flight_inv r c a0 b0 cfg =
     (case cfg of (w, a, b) \<Rightarrow>
        sessions w c = Some r
        \<and> (a = a0 \<or> a = Returned \<or> in_flight a r)
        \<and> (b = b0 \<or> b = Returned \<or> in_flight b r)
        \<and> \<not> (in_flight a r \<and> in_flight b r)
        \<and> (isProcessing (heap w r) = (in_flight a r \<or> in_flight b r)))"

section \<open>The webhook: reading the payload\<close>

record request =
  x_signature :: "string option"
  x_api_key :: "string option"
  body :: string

text \<open>
  \<^verbatim>\<open>NextResponse.json(...)\<close>: the status and the text of the \<^verbatim>\<open>error\<close> or \<^verbatim>\<open>status\<close> field of
  the body.
\<close>

datatype response = Response nat string

definition ok :: response where
  "ok = Response 200 ''ok''"

definition ignored :: response where
  "ignored = Response 200 ''ignored''"

text \<open>Truthiness of a value that is a string, \<^verbatim>\<open>null\<close> or \<^verbatim>\<open>undefined\<close>.\<close>

definition present :: "string option \<Rightarrow> bool" where
  "present v = (case v of None \<Rightarrow> False | Some s \<Rightarrow> s \<noteq> [])"

text \<open>\<^verbatim>\<open>s.split(c)\<close> for a separator of one character.\<close>

fun split_on :: "char \<Rightarrow> string \<Rightarrow> string list" where
  "split_on c [] = [[]]"
| "split_on c (x # xs) =
     (if x = c then [] # split_on c xs
      else (case split_on c xs of
              [] \<Rightarrow> [[x]]
            | y # ys \<Rightarrow> (x # y) # ys))"

text \<open>\<^verbatim>\<open>s.split(':')[1]\<close>\<close>

definition second_part :: "string \<Rightarrow> string option" where
  "second_part s = (case split_on CHR '':'' s of x # y # zs \<Rightarrow> Some y | _ \<Rightarrow> None)"

text \<open>
  \<^verbatim>\<open>event.call_cid.split(':')[1]\<close>: a \<open>TypeError\<close> unless \<^verbatim>\<open>call_cid\<close> is a string (no other
  parsed value has a \<^verbatim>\<open>split\<close> method).
\<close>

definition call_cid_meetingId :: "json \<Rightarrow> error + string option" where
  "call_cid_meetingId event =
     (case jget event ''call_cid'' of
        Some (JStr cid) \<Rightarrow> Inr (second_part cid)
      | _ \<Rightarrow> Inl TypeError)"

text \<open>\<^verbatim>\<open>v?.split(':')[1]\<close>\<close>

definition opt_split :: "json option \<Rightarrow> error + string option" where
  "opt_split v =
     (case v of
        None \<Rightarrow> Inr None
      | Some JNull \<Rightarrow> Inr None
      | Some (JStr s) \<Rightarrow> Inr (second_part s)
      | Some _ \<Rightarrow> Inl TypeError)"

text \<open>\<^verbatim>\<open>anyPayload.call_cid?.split(':')[1] || anyPayload.call?.cid?.split(':')[1]\<close>\<close>

definition caption_meetingId :: "json \<Rightarrow> error + string option" where
  "caption_meetingId anyPayload =
     (case opt_split (jget anyPayload ''call_cid'') of
        Inl e \<Rightarrow> Inl e
      | Inr first \<Rightarrow>
          if present first then Inr first
          else (case jget anyPayload ''call'' of
                  None \<Rightarrow> Inr None
                | Some JNull \<Rightarrow> Inr None
                | Some c \<Rightarrow> opt_split (jget c ''cid'')))"

text \<open>
  \<^verbatim>\<open>event.call.custom?.meetingId\<close>: a \<open>TypeError\<close> when \<^verbatim>\<open>event.call\<close> is \<^verbatim>\<open>undefined\<close> or
  \<^verbatim>\<open>null\<close>.
\<close>

definition custom_meetingId :: "json \<Rightarrow> error + json option" where
  "custom_meetingId event =
     (case jget event ''call'' of
        None \<Rightarrow> Inl TypeError
      | Some JNull \<Rightarrow> Inl TypeError
      | Some c \<Rightarrow>
          (case jget c ''custom'' of
             None \<Rightarrow> Inr None
           | Some JNull \<Rightarrow> Inr None
           | Some custom \<Rightarrow> Inr (jget custom ''meetingId'')))"

text \<open>\<^verbatim>\<open>event.call_transcription.url\<close> and \<^verbatim>\<open>event.call_recording.url\<close>\<close>

definition asset_url :: "json \<Rightarrow> string \<Rightarrow> error + json option" where
  "asset_url event k =
     (case jget event k of
        None \<Rightarrow> Inl TypeError
      | Some JNull \<Rightarrow> Inl TypeError
      | Some a \<Rightarrow> Inr (jget a ''url''))"

text \<open>
  The identifiers of meetings, agents and sessions are strings. A truthy \<^verbatim>\<open>meetingId\<close>
  that is not a string (the event types leave it \<^verbatim>\<open>any\<close>) is taken to match no row and
  no session.
\<close>

definition text_id :: "json option \<Rightarrow> string option" where
  "text_id v = (case v of Some (JStr s) \<Rightarrow> Some s | _ \<Rightarrow> None)"

text \<open>\<^verbatim>\<open>(payload as Record<string, unknown>)?.type\<close>\<close>

definition event_type :: "json \<Rightarrow> json option" where
  "event_type payload = (case payload of JNull \<Rightarrow> None | _ \<Rightarrow> jget payload ''type'')"

section \<open>The webhook: sessions on demand\<close>

text \<open>
  \<open>ensureGeminiSessionForMeeting\<close>, run with no other request between its \<^verbatim>\<open>await\<close>s (its
  segments are \<open>ensure_resume\<close> below). A failure of \<^verbatim>\<open>upsertUsers\<close> is caught and the
  session is started all the same; a failing storage read is caught by the outer \<^verbatim>\<open>try\<close>.
\<close>

definition ensureGeminiSessionForMeeting :: "services \<Rightarrow> world \<Rightarrow> string \<Rightarrow> bool \<times> world" where
  "ensureGeminiSessionForMeeting sv w meetingId =
     (if hasSession w meetingId then (True, w)
      else if \<not> storage_up sv then (False, w)
      else (case meetings w meetingId of
              None \<Rightarrow> (False, w)
            | Some m \<Rightarrow>
                (case agents w (agentId m) of
                   None \<Rightarrow> (False, w)
                 | Some a \<Rightarrow>
                     (True, startSession w meetingId (agentId m) (agent_instructions a)))))"

section \<open>The webhook: the handlers of POST\<close>

text \<open>
  Each handler gives the response, or the error that leaves \<open>POST\<close> uncaught, and the
  state. Storage either answers during the whole request or fails at the first call. A
  \<^verbatim>\<open>meetingId\<close> that is \<^verbatim>\<open>undefined\<close> matches no row. The handlers of this section give a
  request that no other request interrupts at its \<^verbatim>\<open>await\<close>s; \<open>ensureGeminiSessionForMeeting\<close>
  and the \<^verbatim>\<open>call.session_started\<close> branch, which test the state before one \<^verbatim>\<open>await\<close> and
  write it after another, are given segment by segment in the next section.
\<close>

definition eligible :: "meeting \<Rightarrow> bool" where
  "eligible m = (status m \<noteq> Active \<and> status m \<noteq> Completed \<and> status m \<noteq> Cancelled
                 \<and> status m \<noteq> Processing)"

text \<open>
  \<^verbatim>\<open>call.session_started\<close>, run with no other request between its \<^verbatim>\<open>await\<close>s (its segments
  are \<open>started_resume\<close> below). The join through \<^verbatim>\<open>connectOpenAi\<close> sits in a \<^verbatim>\<open>try\<close> of its own
  and touches nothing of the state. When the second \<^verbatim>\<open>upsertUsers\<close> fails too, the outer
  \<^verbatim>\<open>catch\<close> is entered and \<open>startSession\<close> is not reached.
\<close>

definition on_session_started :: "services \<Rightarrow> json \<Rightarrow> world \<Rightarrow> (error + response) \<times> world" where
  "on_session_started sv event w =
     (case custom_meetingId event of
        Inl e \<Rightarrow> (Inl e, w)
      | Inr meetingId \<Rightarrow>
          if \<not> truthy meetingId then (Inr (Response 400 ''Missing meetingId''), w)
          else if \<not> storage_up sv then (Inl (Error ''storage''), w)
          else
            (case text_id meetingId of
               None \<Rightarrow> (Inr (Response 404 ''Meeting not found''), w)
             | Some mid \<Rightarrow>
                 (case meetings w mid of
                    None \<Rightarrow> (Inr (Response 404 ''Meeting not found''), w)
                  | Some existingMeeting \<Rightarrow>
                      if \<not> eligible existingMeeting
                      then (Inr (Response 404 ''Meeting not found''), w)
                      else
                        (let w1 = w\<lparr>meetings := (meetings w)(mid \<mapsto>
                                     existingMeeting\<lparr>status := Active,
                                                      startedAt := Some (now sv)\<rparr>)\<rparr>
                         in case agents w1 (agentId existingMeeting) of
                              None \<Rightarrow> (Inr (Response 404 ''Agent not found''), w1)
                            | Some existingAgent \<Rightarrow>
                                if upsert_first sv \<or> upsert_retry sv
                                then (Inr ok,
                                      startSession w1 mid (agentId existingMeeting)
                                        (agent_instructions existingAgent))
                                else (Inr ok, w1)))))"

definition on_participant_left :: "json \<Rightarrow> world \<Rightarrow> (error + response) \<times> world" where
  "on_participant_left event w =
     (case call_cid_meetingId event of
        Inl e \<Rightarrow> (Inl e, w)
      | Inr meetingId \<Rightarrow>
          if \<not> present meetingId then (Inr (Response 400 ''Missing meetingId''), w)
          else (Inr ok, w))"

text \<open>The guarded update \<^verbatim>\<open>where id = meetingId and status = 'active'\<close>.\<close>

definition to_processing :: "services \<Rightarrow> string \<Rightarrow> world \<Rightarrow> world" where
  "to_processing sv mid w =
     (case meetings w mid of
        None \<Rightarrow> w
      | Some m \<Rightarrow>
          if status m = Active
          then w\<lparr>meetings := (meetings w)(mid \<mapsto>
                   m\<lparr>status := Processing, endedAt := Some (now sv)\<rparr>)\<rparr>
          else w)"

text \<open>\<^verbatim>\<open>call.session_ended\<close>: \<open>endSession\<close> first, then the storage update.\<close>

definition on_session_ended :: "services \<Rightarrow> json \<Rightarrow> world \<Rightarrow> (error + response) \<times> world" where
  "on_session_ended sv event w =
     (case custom_meetingId event of
        Inl e \<Rightarrow> (Inl e, w)
      | Inr meetingId \<Rightarrow>
          if \<not> truthy meetingId then (Inr (Response 400 ''Missing meetingId''), w)
          else
            (let w1 = (case text_id meetingId of None \<Rightarrow> w | Some mid \<Rightarrow> endSession w mid)
             in if \<not> storage_up sv then (Inl (Error ''storage''), w1)
                else (Inr ok,
                      case text_id meetingId of
                        None \<Rightarrow> w1
                      | Some mid \<Rightarrow> to_processing sv mid w1)))"

text \<open>
  One line of the transcript: \<^verbatim>\<open>JSON.parse\<close>, the test \<^verbatim>\<open>item.text && item.speaker_id\<close>, the
  log of \<^verbatim>\<open>item.text.slice(0, 80)\<close> and the call of \<open>processTranscription\<close>; whatever is
  thrown is caught and the line skipped. \<^verbatim>\<open>slice\<close> exists on strings and on arrays only, so
  a truthy \<^verbatim>\<open>text\<close> of another type ends the line with a \<open>TypeError\<close>. A \<^verbatim>\<open>text\<close> that is an
  array is forwarded: the turn stores it as the content of the user message, where only
  the prompt template reads it, as the string \<^verbatim>\<open>String(text)\<close>; the message is kept here as
  that string. The last statement of the \<^verbatim>\<open>try\<close> of \<open>processTranscription\<close>,
  \<^verbatim>\<open>transcriptionText.substring\<close>, then throws into its \<^verbatim>\<open>catch\<close>, after every push. The
  \<^verbatim>\<open>speaker_id\<close> is forwarded whatever its type.
\<close>

definition feed_line :: "services \<Rightarrow> string \<Rightarrow> string \<Rightarrow> world \<Rightarrow> world" where
  "feed_line sv meetingId line w =
     (case json_parse sv line of
        None \<Rightarrow> w
      | Some JNull \<Rightarrow> w
      | Some item \<Rightarrow>
          if truthy (jget item ''text'') \<and> truthy (jget item ''speaker_id'')
          then (case (jget item ''text'', jget item ''speaker_id'') of
                  (Some (JStr t), Some speaker) \<Rightarrow>
                    snd (processTranscription_any sv w meetingId t speaker)
                | (Some (JArr xs), Some speaker) \<Rightarrow>
                    snd (processTranscription_any sv w meetingId (to_text sv (JArr xs)) speaker)
                | _ \<Rightarrow> w)
          else w)"

definition transcript_lines :: "string \<Rightarrow> string list" where
  "transcript_lines transcriptData = filter (\<lambda>l. l \<noteq> []) (split_on (CHR 0x0A) transcriptData)"

definition on_transcription_ready :: "services \<Rightarrow> json \<Rightarrow> world \<Rightarrow> (error + response) \<times> world" where
  "on_transcription_ready sv event w =
     (case call_cid_meetingId event of
        Inl e \<Rightarrow> (Inl e, w)
      | Inr meetingId \<Rightarrow>
          (case asset_url event ''call_transcription'' of
             Inl e \<Rightarrow> (Inl e, w)
           | Inr url \<Rightarrow>
               if \<not> storage_up sv then (Inl (Error ''storage''), w)
               else
                 (case meetingId of
                    None \<Rightarrow> (Inr (Response 404 ''Meeting not found''), w)
                  | Some mid \<Rightarrow>
                      (case meetings w mid of
                         None \<Rightarrow> (Inr (Response 404 ''Meeting not found''), w)
                       | Some m \<Rightarrow>
                           (let w1 = w\<lparr>meetings := (meetings w)(mid \<mapsto>
                                        m\<lparr>transcriptUrl := url\<rparr>)\<rparr>;
                                w2 = (if hasSession w1 mid
                                      then (case fetch_text sv url of
                                              Inl e \<Rightarrow> w1
                                            | Inr transcriptData \<Rightarrow>
                                                fold (feed_line sv mid)
                                                  (transcript_lines transcriptData) w1)
                                      else w1)
                            in if inngest_up sv then (Inr ok, w2)
                               else (Inl (Error ''inngest''), w2))))))"

definition on_recording_ready :: "services \<Rightarrow> json \<Rightarrow> world \<Rightarrow> (error + response) \<times> world" where
  "on_recording_ready sv event w =
     (case call_cid_meetingId event of
        Inl e \<Rightarrow> (Inl e, w)
      | Inr meetingId \<Rightarrow>
          (case asset_url event ''call_recording'' of
             Inl e \<Rightarrow> (Inl e, w)
           | Inr url \<Rightarrow>
               if \<not> storage_up sv then (Inl (Error ''storage''), w)
               else
                 (case meetingId of
                    None \<Rightarrow> (Inr ok, w)
                  | Some mid \<Rightarrow>
                      (case meetings w mid of
                         None \<Rightarrow> (Inr ok, w)
                       | Some m \<Rightarrow>
                           (Inr ok,
                            w\<lparr>meetings := (meetings w)(mid \<mapsto> m\<lparr>recordingUrl := url\<rparr>)\<rparr>)))))"

text \<open>
  \<^verbatim>\<open>anyPayload.user?.id || anyPayload.closed_caption?.user_id || anyPayload.speaker_id || 'user'\<close>
\<close>

definition opt_get :: "json option \<Rightarrow> string \<Rightarrow> json option" where
  "opt_get v k = (case v of None \<Rightarrow> None | Some JNull \<Rightarrow> None | Some x \<Rightarrow> jget x k)"

definition caption_speaker :: "json \<Rightarrow> json" where
  "caption_speaker anyPayload =
     (case or_else (or_else (or_else (opt_get (jget anyPayload ''user'') ''id'')
                                     (opt_get (jget anyPayload ''closed_caption'') ''user_id''))
                            (jget anyPayload ''speaker_id''))
                   (Some (JStr ''user'')) of
        Some speakerId \<Rightarrow> speakerId
      | None \<Rightarrow> JStr ''user'')"

text \<open>
  \<^verbatim>\<open>call.closed_caption\<close>: the whole branch is inside a \<^verbatim>\<open>try\<close> whose \<^verbatim>\<open>catch\<close> logs, after
  which \<open>POST\<close> answers \<open>ok\<close>. The speaker is passed on whatever its type.
\<close>

definition on_closed_caption :: "services \<Rightarrow> json \<Rightarrow> world \<Rightarrow> (error + response) \<times> world" where
  "on_closed_caption sv anyPayload w =
     (case caption_meetingId anyPayload of
        Inl e \<Rightarrow> (Inr ok, w)
      | Inr None \<Rightarrow> (Inr ignored, w)
      | Inr (Some meetingId) \<Rightarrow>
          if meetingId = [] then (Inr ignored, w)
          else
            (let (ready, w1) = ensureGeminiSessionForMeeting sv w meetingId
             in if \<not> ready then (Inr ignored, w1)
                else (case extractCaptionText anyPayload of
                        None \<Rightarrow> (Inr ignored, w1)
                      | Some txt \<Rightarrow>
                          if txt = [] \<or> length (trim txt) = 0 then (Inr ignored, w1)
                          else (Inr ok,
                                snd (processTranscription_any sv w1 meetingId txt
                                       (caption_speaker anyPayload))))))"

text \<open>\<^verbatim>\<open>call.closed_captions_started\<close> and \<^verbatim>\<open>call.transcription_started\<close>\<close>

definition on_captions_started :: "services \<Rightarrow> json \<Rightarrow> world \<Rightarrow> (error + response) \<times> world" where
  "on_captions_started sv anyPayload w =
     (case caption_meetingId anyPayload of
        Inl e \<Rightarrow> (Inr ok, w)
      | Inr None \<Rightarrow> (Inr ignored, w)
      | Inr (Some meetingId) \<Rightarrow>
          if meetingId = [] then (Inr ignored, w)
          else (Inr ok, snd (ensureGeminiSessionForMeeting sv w meetingId)))"

definition route :: "services \<Rightarrow> json \<Rightarrow> world \<Rightarrow> (error + response) \<times> world" where
  "route sv payload w =
     (let eventType = event_type payload
      in if eventType = Some (JStr ''call.session_started'')
           then on_session_started sv payload w
         else if eventType = Some (JStr ''call.session_participant_left'')
           then on_participant_left payload w
         else if eventType = Some (JStr ''call.session_ended'')
           then on_session_ended sv payload w
         else if eventType = Some (JStr ''call.transcription_ready'')
           then on_transcription_ready sv payload w
         else if eventType = Some (JStr ''call.recording_ready'')
           then on_recording_ready sv payload w
         else if eventType = Some (JStr ''call.closed_caption'')
           then on_closed_caption sv payload w
         else if eventType = Some (JStr ''call.closed_captions_started'')
                 \<or> eventType = Some (JStr ''call.transcription_started'')
           then on_captions_started sv payload w
         else (Inr ok, w))"

text \<open>\<open>POST\<close>: the headers, the signature, \<^verbatim>\<open>JSON.parse\<close>, and the branch of the event type.\<close>

definition POST :: "services \<Rightarrow> request \<Rightarrow> world \<Rightarrow> (error + response) \<times> world" where
  "POST sv req w =
     (if \<not> present (x_signature req) \<or> \<not> present (x_api_key req)
      then (Inr (Response 400 ''Missing signature or API key''), w)
      else
        (case x_signature req of
           None \<Rightarrow> (Inr (Response 400 ''Missing signature or API key''), w)
         | Some signature \<Rightarrow>
             if \<not> verifyWebhook sv (body req) signature
             then (Inr (Response 401 ''Invalid signature''), w)
             else (case json_parse sv (body req) of
                     None \<Rightarrow> (Inr (Response 400 ''Invalid JSON''), w)
                   | Some payload \<Rightarrow> route sv payload w)))"

section \<open>The webhook, segment by segment\<close>

text \<open>
  Requests overlap: while a handler is suspended at an \<^verbatim>\<open>await\<close>, other handlers run. A
  storage call is answered from the state in the segment that issues it, and its result
  reaches the handler in the next segment. An \<^verbatim>\<open>await\<close> after which the handler neither
  reads nor writes the state before its next \<^verbatim>\<open>await\<close> (the retry timer and the second
  \<^verbatim>\<open>upsertUsers\<close>, the OpenAI join, the return after \<open>startSession\<close>) is merged with the
  segment that follows it.

  \<open>ensureGeminiSessionForMeeting\<close>: the test of \<open>hasSession\<close> and the read of the meeting;
  the read of the agent; the call of \<^verbatim>\<open>upsertUsers\<close>; \<open>startSession\<close>.
\<close>

datatype ensure_turn =
    EnsureCalled string
  | EnsureMeeting string "meeting option"
  | EnsureAgent string meeting "agent option"
  | EnsureProvision string meeting agent
  | EnsureReturned bool

fun ensure_resume :: "services \<Rightarrow> world \<Rightarrow> ensure_turn \<Rightarrow> world \<times> ensure_turn" where
  "ensure_resume sv w (EnsureCalled meetingId) =
     (if hasSession w meetingId then (w, EnsureReturned True)
      else if \<not> storage_up sv then (w, EnsureReturned False)
      else (w, EnsureMeeting meetingId (meetings w meetingId)))"
| "ensure_resume sv w (EnsureMeeting meetingId None) = (w, EnsureReturned False)"
| "ensure_resume sv w (EnsureMeeting meetingId (Some m)) =
     (if \<not> storage_up sv then (w, EnsureReturned False)
      else (w, EnsureAgent meetingId m (agents w (agentId m))))"
| "ensure_resume sv w (EnsureAgent meetingId m None) = (w, EnsureReturned False)"
| "ensure_resume sv w (EnsureAgent meetingId m (Some a)) = (w, EnsureProvision meetingId m a)"
| "ensure_resume sv w (EnsureProvision meetingId m a) =
     (startSession w meetingId (agentId m) (agent_instructions a), EnsureReturned True)"
| "ensure_resume sv w (EnsureReturned b) = (w, EnsureReturned b)"

text \<open>The segments of one call, one after the other with nothing in between.\<close>

definition ensure_alone :: "services \<Rightarrow> world \<Rightarrow> ensure_turn \<Rightarrow> world \<times> ensure_turn" where
  "ensure_alone sv w t =
     (let (w1, t1) = ensure_resume sv w t; (w2, t2) = ensure_resume sv w1 t1;
          (w3, t3) = ensure_resume sv w2 t2
      in ensure_resume sv w3 t3)"

text \<open>
  The \<^verbatim>\<open>call.session_started\<close> branch: the select with the four status conditions; the
  update \<^verbatim>\<open>where id = existingMeeting.id\<close>, which names no status and so applies to the row
  as it is when the update runs; the read of the agent; the call of \<^verbatim>\<open>upsertUsers\<close>;
  \<open>startSession\<close>.
\<close>

definition select_eligible :: "world \<Rightarrow> json option \<Rightarrow> (string \<times> meeting) option" where
  "select_eligible w meetingId =
     (case text_id meetingId of
        None \<Rightarrow> None
      | Some mid \<Rightarrow>
          (case meetings w mid of
             None \<Rightarrow> None
           | Some m \<Rightarrow> if eligible m then Some (mid, m) else None))"

definition set_active :: "services \<Rightarrow> string \<Rightarrow> world \<Rightarrow> world" where
  "set_active sv mid w =
     (case meetings w mid of
        None \<Rightarrow> w
      | Some m \<Rightarrow>
          w\<lparr>meetings := (meetings w)(mid \<mapsto> m\<lparr>status := Active, startedAt := Some (now sv)\<rparr>)\<rparr>)"

datatype started_turn =
    StartedCalled json
  | StartedSelect "(string \<times> meeting) option"
  | StartedUpdate string meeting
  | StartedAgent string meeting "agent option"
  | StartedProvision string meeting agent
  | StartedReturned "error + response"

fun started_resume :: "services \<Rightarrow> world \<Rightarrow> started_turn \<Rightarrow> world \<times> started_turn" where
  "started_resume sv w (StartedCalled event) =
     (case custom_meetingId event of
        Inl e \<Rightarrow> (w, StartedReturned (Inl e))
      | Inr meetingId \<Rightarrow>
          if \<not> truthy meetingId
          then (w, StartedReturned (Inr (Response 400 ''Missing meetingId'')))
          else if \<not> storage_up sv then (w, StartedReturned (Inl (Error ''storage'')))
          else (w, StartedSelect (select_eligible w meetingId)))"
| "started_resume sv w (StartedSelect None) =
     (w, StartedReturned (Inr (Response 404 ''Meeting not found'')))"
| "started_resume sv w (StartedSelect (Some (mid, existingMeeting))) =
     (if \<not> storage_up sv then (w, StartedReturned (Inl (Error ''storage'')))
      else (set_active sv mid w, StartedUpdate mid existingMeeting))"
| "started_resume sv w (StartedUpdate mid existingMeeting) =
     (if \<not> storage_up sv then (w, StartedReturned (Inl (Error ''storage'')))
      else (w, StartedAgent mid existingMeeting (agents w (agentId existingMeeting))))"
| "started_resume sv w (StartedAgent mid existingMeeting None) =
     (w, StartedReturned (Inr (Response 404 ''Agent not found'')))"
| "started_resume sv w (StartedAgent mid existingMeeting (Some existingAgent)) =
     (w, StartedProvision mid existingMeeting existingAgent)"
| "started_resume sv w (StartedProvision mid existingMeeting existingAgent) =
     (if upsert_first sv \<or> upsert_retry sv
      then (startSession w mid (agentId existingMeeting) (agent_instructions existingAgent),
            StartedReturned (Inr ok))
      else (w, StartedReturned (Inr ok)))"
| "started_resume sv w (StartedReturned r) = (w, StartedReturned r)"

definition started_alone :: "services \<Rightarrow> world \<Rightarrow> started_turn \<Rightarrow> world \<times> started_turn" where
  "started_alone sv w t =
     (let (w1, t1) = started_resume sv w t; (w2, t2) = started_resume sv w1 t1;
          (w3, t3) = started_resume sv w2 t2; (w4, t4) = started_resume sv w3 t3
      in started_resume sv w4 t4)"

text \<open>
  For the statements: the request carries both headers and a signature that verifies, and
  the payload its body parses to.
\<close>

definition authenticated :: "services \<Rightarrow> request \<Rightarrow> bool" where
  "authenticated sv req =
     (present (x_signature req) \<and> present (x_api_key req)
      \<and> (case x_signature req of
            None \<Rightarrow> False
          | Some signature \<Rightarrow> verifyWebhook sv (body req) signature))"

definition delivered :: "services \<Rightarrow> request \<Rightarrow> json option" where
  "delivered sv req = (if authenticated sv req then json_parse sv (body req) else None)"

section \<open>A concrete session, meeting and environment\<close>

definition session0 :: session where
  "session0 = \<lparr>call = ''m1'', agentUserId = ''agent-1'', instructions = ''Be kind.'',
      conversationHistory = [], isProcessing = False, audioResponses = []\<rparr>"

definition meeting0 :: meeting where
  "meeting0 = \<lparr>agentId = ''agent-1'', status = Upcoming, startedAt = None, endedAt = None,
      transcriptUrl = None, recordingUrl = None\<rparr>"

definition world0 :: world where
  "world0 = \<lparr>sessions = [''m1'' \<mapsto> 0], heap = (\<lambda>r. session0), next_ref = 1,
      meetings = [''m1'' \<mapsto> meeting0],
      agents = [''agent-1'' \<mapsto> \<lparr>agent_name = ''Ann'', agent_instructions = ''Be kind.''\<rparr>]\<rparr>"

text \<open>The same state while a turn of the session is in flight.\<close>

definition world_busy :: world where
  "world_busy = update_session 0 (\<lambda>s. s\<lparr>isProcessing := True\<rparr>) world0"

definition sv_ok :: services where
  "sv_ok = \<lparr>api_key_set = True, generateContent = (\<lambda>p. Inr ''Hello!''),
      ttsClient = Some (\<lambda>t. Inr (Some ''RIFF'')),
      upload_stream = (\<lambda>b c. Inr (Some ''https://res.example/a.wav'')),
      now = 42, verifyWebhook = (\<lambda>b s. True), json_parse = (\<lambda>b. None),
      storage_up = True, inngest_up = True, upsert_first = True, upsert_retry = True,
      fetch_text = (\<lambda>u. Inl (Error ''no transcript'')), to_text = (\<lambda>v. [])\<rparr>"

definition sv_llm_down :: services where
  "sv_llm_down = sv_ok\<lparr>generateContent := (\<lambda>p. Inl (Error ''model unavailable''))\<rparr>"

definition sv_upload_down :: services where
  "sv_upload_down = sv_ok\<lparr>upload_stream := (\<lambda>b c. Inl (Error ''upload timeout''))\<rparr>"

definition sv_tts_down :: services where
  "sv_tts_down = sv_ok\<lparr>ttsClient := Some (\<lambda>t. Inl (Error ''synthesis failed''))\<rparr>"

definition sv_no_tts :: services where
  "sv_no_tts = sv_ok\<lparr>ttsClient := None\<rparr>"

text \<open>The state after the first segment of a turn with the text \<^verbatim>\<open>one\<close>.\<close>

definition world_one :: world where
  "world_one = update_session 0 (push_message ''user'' ''one'')
                 (update_session 0 (\<lambda>s. s\<lparr>isProcessing := True\<rparr>) world0)"

text \<open>A signed request, the environment in which its body parses to a given payload, events.\<close>

definition req0 :: request where
  "req0 = \<lparr>x_signature = Some ''sig'', x_api_key = Some ''key'', body = ''{}''\<rparr>"

definition sv_event :: "json \<Rightarrow> services" where
  "sv_event payload = sv_ok\<lparr>json_parse := (\<lambda>b. Some payload)\<rparr>"

definition started_event :: json where
  "started_event =
     JObj [(''type'', JStr ''call.session_started''),
           (''call'', JObj [(''custom'', JObj [(''meetingId'', JStr ''m1'')])])]"

definition ended_event :: json where
  "ended_event =
     JObj [(''type'', JStr ''call.session_ended''),
           (''call'', JObj [(''custom'', JObj [(''meetingId'', JStr ''m1'')])])]"

definition left_event :: json where
  "left_event =
     JObj [(''type'', JStr ''call.session_participant_left''), (''call_cid'', JStr ''default'')]"

definition caption_event :: json where
  "caption_event =
     JObj [(''type'', JStr ''call.closed_caption''), (''call_cid'', JStr ''default:m1''),
           (''closed_caption'', JObj [(''text'', JStr ''hello there''), (''user_id'', JStr ''u1'')])]"

text \<open>The session of \<^verbatim>\<open>m1\<close> after one turn; the meeting of \<^verbatim>\<open>m1\<close> completed.\<close>

definition world_chat :: world where
  "world_chat = update_session 0 (push_message ''assistant'' ''Hello!'')
                  (update_session 0 (push_message ''user'' ''hi'') world0)"

definition world_done :: world where
  "world_done = world0\<lparr>meetings := [''m1'' \<mapsto> meeting0\<lparr>status := Completed\<rparr>]\<rparr>"


text \<open>The caption event in an environment whose language model is down.\<close>

definition sv_caption_llm_down :: services where
  "sv_caption_llm_down =
     (sv_event caption_event)\<lparr>generateContent := (\<lambda>p. Inl (Error ''model unavailable''))\<rparr>"

text \<open>The state with no session.\<close>

definition world_idle :: world where
  "world_idle = endSession world0 ''m1''"

text \<open>The state in which the meeting of \<^verbatim>\<open>m1\<close> is active.\<close>

definition world_live :: world where
  "world_live = world0\<lparr>meetings := [''m1'' \<mapsto> meeting0\<lparr>status := Active\<rparr>]\<rparr>"

text \<open>
  Overlapping deliveries for the upcoming meeting \<^verbatim>\<open>m1\<close> with no session: the state after a
  \<^verbatim>\<open>call.session_started\<close> request, the state after a \<^verbatim>\<open>call.session_ended\<close> request that follows
  it, and the state after another \<^verbatim>\<open>call.session_started\<close> request, suspended at its select
  before the two and resumed after them, at a later time.
\<close>

definition sv_late :: services where
  "sv_late = (sv_event started_event)\<lparr>now := 99\<rparr>"

definition world_started :: world where
  "world_started = snd (POST (sv_event started_event) req0 world_idle)"

definition world_ended :: world where
  "world_ended = snd (POST (sv_event ended_event) req0 world_started)"

definition world_restarted :: world where
  "world_restarted =
     fst (started_alone sv_late world_ended (StartedSelect (Some (''m1'', meeting0))))"

text \<open>
  The state after a caption request has created the session of \<^verbatim>\<open>m1\<close> on demand, and after a
  turn of that session.
\<close>

definition world_lazy :: world where
  "world_lazy = fst (ensure_alone sv_ok world_idle (EnsureCalled ''m1''))"

definition world_lazy_chat :: world where
  "world_lazy_chat = snd (processTranscription sv_ok world_lazy ''m1'' ''hi'' ''u1'')"

section \<open>Properties of extractCaptionText\<close>

lemmas caption_defs = caption_part_def or_else_def direct_text_def nested_text_def text_like_def
  known_locations_def trim_def is_white_space_def text_keys_def

lemma text_fields_entry_subset:
  "(k, v) \<in> set kvs \<Longrightarrow> set (text_fields v) \<subseteq> set (text_fields_entries kvs)"
proof (induction kvs)
  case Nil
  then show ?case by simp
next
  case (Cons a kvs)
  obtain k' v' where a: "a = (k', v')" by (cases a)
  show ?case using Cons a by (cases v') auto
qed

lemma text_fields_entry_string:
  "(k, JStr s) \<in> set kvs \<Longrightarrow> k \<in> set text_keys \<Longrightarrow> s \<in> set (text_fields_entries kvs)"
proof (induction kvs)
  case Nil
  then show ?case by simp
next
  case (Cons a kvs)
  obtain k' v' where a: "a = (k', v')" by (cases a)
  show ?case using Cons a by (cases v') auto
qed

lemma usable_Some:
  "usable v = Some s \<longleftrightarrow> v = Some (JStr s) \<and> trim s \<noteq> []"
  by (cases v rule: usable.cases) auto

lemma usable_text_like:
  assumes "usable (text_like c) = Some s"
  shows "trim s \<noteq> [] \<and> s \<in> set (text_fields c)"
proof -
  have "text_like c = Some (JStr s) \<and> trim s \<noteq> []"
    using assms by (simp add: usable_Some)
  then have u: "text_like c = Some (JStr s)" and t: "trim s \<noteq> []"
    by blast+
  from u obtain kvs k where c: "c = JObj kvs" and k: "k \<in> set text_keys"
    and m: "map_of kvs k = Some (JStr s)"
    by (cases c) (auto simp: text_like_def or_else_def text_keys_def split: if_splits)
  from m have "(k, JStr s) \<in> set kvs" by (rule map_of_SomeD)
  with k c t show ?thesis by (simp add: text_fields_entry_string)
qed

lemma caption_part_entry:
  assumes "caption_part j = Some c"
  shows "set (text_fields c) \<subseteq> set (text_fields j)"
proof -
  from assms obtain kvs k where j: "j = JObj kvs" and kv: "(k, c) \<in> set kvs"
    by (cases j) (auto simp: caption_part_def or_else_def split: if_splits dest!: map_of_SomeD)
  then show ?thesis using text_fields_entry_subset[OF kv] by simp
qed

lemma direct_text_sound:
  "direct_text c = Some s \<Longrightarrow> trim s \<noteq> [] \<and> s \<in> set (text_fields c)"
  unfolding direct_text_def by (rule usable_text_like)

lemma nested_text_sound:
  assumes "nested_text c = Some s"
  shows "trim s \<noteq> [] \<and> s \<in> set (text_fields c)"
proof -
  from assms obtain p where p: "or_else (jget c ''payload'') (jget c ''data'') = Some p"
    and u: "usable (text_like p) = Some s"
    by (auto simp: nested_text_def Let_def split: option.splits if_splits)
  from p obtain kvs k where c: "c = JObj kvs" and kv: "(k, p) \<in> set kvs"
    by (cases c) (auto simp: or_else_def split: if_splits dest!: map_of_SomeD)
  have "set (text_fields p) \<subseteq> set (text_fields c)"
    using text_fields_entry_subset[OF kv] c by simp
  with usable_text_like[OF u] show ?thesis by auto
qed

lemma known_locations_sound:
  assumes "known_locations j = Some s"
  shows "trim s \<noteq> [] \<and> s \<in> set (text_fields j)"
proof -
  from assms obtain c where c: "caption_part j = Some c"
    and d: "direct_text c = Some s \<or> nested_text c = Some s"
    by (auto simp: known_locations_def split: option.splits if_splits)
  from d have "trim s \<noteq> [] \<and> s \<in> set (text_fields c)"
    using direct_text_sound nested_text_sound by blast
  with caption_part_entry[OF c] show ?thesis by auto
qed

lemma extract_sound:
  "\<forall>s. extractCaptionText j = Some s \<longrightarrow> trim s \<noteq> [] \<and> s \<in> set (text_fields j)"
  "\<forall>s. scan_entries kvs = Some s \<longrightarrow>
       trim s \<noteq> [] \<and> s \<in> set (text_fields_entries kvs)"
  "\<forall>s. scan_elems xs = Some s \<longrightarrow> trim s \<noteq> [] \<and> s \<in> set (text_fields_elems xs)"
proof (induction j and kvs and xs rule: extractCaptionText_scan_entries_scan_elems.induct)
  case (1 kvs)
  then show ?case using known_locations_sound[of "JObj kvs"] by (auto split: option.splits)
next
  case (2 xs)
  then show ?case using known_locations_sound[of "JArr xs"] by (auto split: option.splits)
qed (auto split: option.splits if_splits)

lemma trim_Nil: "trim [] = []"
  by (simp add: trim_def)

lemma extract_not_empty:
  "known_locations j \<noteq> Some []" "extractCaptionText j \<noteq> Some []"
  "scan_entries kvs \<noteq> Some []" "scan_elems xs \<noteq> Some []"
  using known_locations_sound[of j "[]"] extract_sound(1)[of j] extract_sound(2)[of kvs]
    extract_sound(3)[of xs]
  by (auto simp: trim_Nil)

lemma extract_complete:
  "extractCaptionText j = None \<longrightarrow> (\<forall>s \<in> set (text_fields j). trim s = [])"
  "scan_entries kvs = None \<longrightarrow> (\<forall>s \<in> set (text_fields_entries kvs). trim s = [])"
  "scan_elems xs = None \<longrightarrow> (\<forall>s \<in> set (text_fields_elems xs). trim s = [])"
  by (induction j and kvs and xs rule: extractCaptionText_scan_entries_scan_elems.induct)
     (auto simp: extract_not_empty split: option.splits if_splits)

lemma extract_primitive:
  "extractCaptionText JNull = None" "extractCaptionText (JBool b) = None"
  "extractCaptionText (JNum n) = None" "extractCaptionText (JStr v) = None"
  by simp_all

text \<open>
  C9. \<open>extractCaptionText\<close> is total (it has a result on every payload and no raising
  path). Its result is either \<open>None\<close> ("no text found") or a string that is not empty, not
  blank, and the value of a field keyed \<^verbatim>\<open>text\<close>, \<^verbatim>\<open>caption\<close> or \<^verbatim>\<open>content\<close> of the payload. It
  is \<open>None\<close> exactly when the payload holds no such field with a non-blank string (so for
  every value that is not an object, and for missing or wrongly typed fields). The search
  order: the direct field of the caption substructure wins; otherwise the field under its
  \<^verbatim>\<open>payload\<close>/\<^verbatim>\<open>data\<close> substructure; otherwise the recursive scan of the entries.
\<close>

theorem extractCaptionText_contract:
  "(\<forall>s. extractCaptionText j = Some s \<longrightarrow>
        s \<noteq> [] \<and> trim s \<noteq> [] \<and> s \<in> set (text_fields j))
   \<and> (extractCaptionText j = None \<longleftrightarrow> (\<forall>s \<in> set (text_fields j). trim s = []))
   \<and> (\<forall>c s. caption_part j = Some c \<and> truthy (Some c) \<and> direct_text c = Some s \<longrightarrow>
          extractCaptionText j = Some s)
   \<and> (\<forall>c s. caption_part j = Some c \<and> truthy (Some c) \<and> direct_text c = None
            \<and> nested_text c = Some s \<longrightarrow> extractCaptionText j = Some s)
   \<and> (\<forall>kvs. j = JObj kvs \<and> known_locations j = None \<longrightarrow>
          extractCaptionText j = scan_entries kvs)
   \<and> (j = JNull \<or> (\<exists>b. j = JBool b) \<or> (\<exists>n. j = JNum n) \<or> (\<exists>v. j = JStr v) \<longrightarrow>
          extractCaptionText j = None)"
proof (intro conjI allI impI)
  fix s assume a: "extractCaptionText j = Some s"
  with extract_sound(1)[of j] show "trim s \<noteq> []" and "s \<in> set (text_fields j)" by auto
  from a extract_not_empty(2)[of j] show "s \<noteq> []" by auto
next
  show "extractCaptionText j = None \<longleftrightarrow> (\<forall>s \<in> set (text_fields j). trim s = [])"
  proof
    assume "extractCaptionText j = None"
    with extract_complete(1)[of j] show "\<forall>s \<in> set (text_fields j). trim s = []" by simp
  next
    assume b: "\<forall>s \<in> set (text_fields j). trim s = []"
    show "extractCaptionText j = None"
    proof (cases "extractCaptionText j")
      case None
      then show ?thesis .
    next
      case (Some s)
      with extract_sound(1)[of j] b show ?thesis by auto
    qed
  qed
next
  fix c s
  assume a: "caption_part j = Some c \<and> truthy (Some c) \<and> direct_text c = Some s"
  then obtain kvs where "j = JObj kvs"
    by (cases j) (auto simp: caption_part_def or_else_def)
  with a show "extractCaptionText j = Some s" by (simp add: known_locations_def)
next
  fix c s
  assume a: "caption_part j = Some c \<and> truthy (Some c) \<and> direct_text c = None
    \<and> nested_text c = Some s"
  then obtain kvs where "j = JObj kvs"
    by (cases j) (auto simp: caption_part_def or_else_def)
  with a show "extractCaptionText j = Some s" by (simp add: known_locations_def)
next
  fix kvs assume "j = JObj kvs \<and> known_locations j = None"
  then show "extractCaptionText j = scan_entries kvs" by auto
next
  assume "j = JNull \<or> (\<exists>b. j = JBool b) \<or> (\<exists>n. j = JNum n) \<or> (\<exists>v. j = JStr v)"
  then show "extractCaptionText j = None" by auto
qed

theorem extractCaptionText_contract_witness:
  "caption_part payload_direct
     = Some (JObj [(''text'', JStr ''hello there''), (''user_id'', JStr ''u1'')])
   \<and> direct_text (JObj [(''text'', JStr ''hello there''), (''user_id'', JStr ''u1'')])
       = Some ''hello there''
   \<and> extractCaptionText payload_direct = Some ''hello there''
   \<and> ''hello there'' \<in> set (text_fields payload_direct)
   \<and> direct_text (JObj [(''text'', JNum 0), (''caption'', JStr ''  ''),
                        (''data'', JObj [(''content'', JStr ''deep'')])]) = None
   \<and> nested_text (JObj [(''text'', JNum 0), (''caption'', JStr ''  ''),
                        (''data'', JObj [(''content'', JStr ''deep'')])]) = Some ''deep''
   \<and> extractCaptionText payload_nested = Some ''deep''
   \<and> known_locations payload_fallback = None
   \<and> extractCaptionText payload_fallback = Some ''found''
   \<and> text_fields payload_blank = ['' '']
   \<and> extractCaptionText payload_blank = None
   \<and> extractCaptionText (JStr ''caption'') = None"
proof -
  let ?cd = "JObj [(''text'', JStr ''hello there''), (''user_id'', JStr ''u1'')]"
  let ?cn = "JObj [(''text'', JNum 0), (''caption'', JStr ''  ''),
                   (''data'', JObj [(''content'', JStr ''deep'')])]"
  have d: "caption_part payload_direct = Some ?cd \<and> truthy (Some ?cd)
           \<and> direct_text ?cd = Some ''hello there''"
    by (simp add: payload_direct_def caption_defs)
  have n: "caption_part payload_nested = Some ?cn \<and> truthy (Some ?cn)
           \<and> direct_text ?cn = None \<and> nested_text ?cn = Some ''deep''"
    by (simp add: payload_nested_def caption_defs)
  have f: "payload_fallback
             = JObj [(''items'', JArr [JStr ''x'', JObj [(''caption'', JStr ''found'')]]),
                     (''text'', JStr ''later'')]
           \<and> known_locations payload_fallback = None"
    by (simp add: payload_fallback_def caption_defs)
  have fs: "scan_entries [(''items'', JArr [JStr ''x'', JObj [(''caption'', JStr ''found'')]]),
                          (''text'', JStr ''later'')] = Some ''found''"
    by (simp add: caption_defs)
  have b: "text_fields payload_blank = ['' ''] \<and> trim '' '' = []"
    by (simp add: payload_blank_def caption_defs)
  have r1: "extractCaptionText payload_direct = Some ''hello there''"
    using extractCaptionText_contract[of payload_direct] d by blast
  have r1': "''hello there'' \<in> set (text_fields payload_direct)"
    using extractCaptionText_contract[of payload_direct] r1 by blast
  have r2: "extractCaptionText payload_nested = Some ''deep''"
    using extractCaptionText_contract[of payload_nested] n by blast
  have r3: "extractCaptionText payload_fallback = Some ''found''"
    using extractCaptionText_contract[of payload_fallback] f fs by metis
  have r4: "extractCaptionText payload_blank = None"
    using extractCaptionText_contract[of payload_blank] b by simp
  have r5: "extractCaptionText (JStr ''caption'') = None"
    using extractCaptionText_contract[of "JStr ''caption''"] by blast
  show ?thesis using d n f b r1 r1' r2 r3 r4 r5 by simp
qed

section \<open>Properties of processTranscription\<close>

lemmas service_defs = generateGeminiResponse_def textToSpeech_def uploadToCloudinary_def
  sv_ok_def sv_llm_down_def sv_upload_down_def sv_tts_down_def sv_no_tts_def

lemmas world0_defs = world0_def session0_def meeting0_def

lemmas turn_defs = processTranscription_def turn_body_def Let_def push_message_def push_audio_def

lemma update_session_simps [simp]:
  "sessions (update_session r f w) = sessions w"
  "heap (update_session r f w) r' = (if r' = r then f (heap w r) else heap w r')"
  "next_ref (update_session r f w) = next_ref w"
  "meetings (update_session r f w) = meetings w"
  "agents (update_session r f w) = agents w"
  by (simp_all add: update_session_def)

lemma turn_body_sessions [simp]: "sessions (snd (turn_body sv w r c t)) = sessions w"
  by (simp add: turn_body_def Let_def split: sum.splits option.splits)

lemma idle_update:
  "\<not> isProcessing s \<Longrightarrow>
     s\<lparr>conversationHistory := h, isProcessing := False\<rparr> = s\<lparr>conversationHistory := h\<rparr>"
  by (cases s) simp

lemma guards0:
  "sessions world0 ''m1'' = Some 0" "\<not> isProcessing (heap world0 0)"
  "''user-1'' \<noteq> agentUserId (heap world0 0)"
  by (simp_all add: world0_defs)

text \<open>
  C1. For every call of \<open>processTranscription\<close> that passes the guards (the session is
  present, not in flight, and the speaker is not the agent), whatever the language model,
  the speech synthesis and the asset store do (the environment \<open>sv\<close> is arbitrary, so each
  of them may raise), the call returns and \<open>isProcessing\<close> of the session is false in the
  state it leaves.
\<close>

theorem processTranscription_releases:
  assumes "sessions w callId = Some r" and "\<not> isProcessing (heap w r)"
    and "speakerId \<noteq> agentUserId (heap w r)"
  shows "fst (processTranscription sv w callId transcriptionText speakerId) = Inr ()
    \<and> sessions (snd (processTranscription sv w callId transcriptionText speakerId)) callId
        = Some r
    \<and> \<not> isProcessing
          (heap (snd (processTranscription sv w callId transcriptionText speakerId)) r)"
  using assms by (simp add: processTranscription_def Let_def split_beta)

theorem processTranscription_releases_witness:
  "sessions world0 ''m1'' = Some 0 \<and> \<not> isProcessing (heap world0 0)
   \<and> ''user-1'' \<noteq> agentUserId (heap world0 0)
   \<and> generateGeminiResponse sv_llm_down ''Be kind.'' [\<lparr>role = ''user'', content = ''hi''\<rparr>]
       = Inl (Error ''model unavailable'')
   \<and> \<not> isProcessing
         (heap (snd (processTranscription sv_llm_down world0 ''m1'' ''hi'' ''user-1'')) 0)
   \<and> textToSpeech sv_tts_down ''Hello!'' = Inl (Error ''synthesis failed'')
   \<and> \<not> isProcessing
         (heap (snd (processTranscription sv_tts_down world0 ''m1'' ''hi'' ''user-1'')) 0)
   \<and> uploadToCloudinary sv_upload_down ''RIFF'' ''m1'' = Inl (Error ''upload timeout'')
   \<and> \<not> isProcessing
         (heap (snd (processTranscription sv_upload_down world0 ''m1'' ''hi'' ''user-1'')) 0)
   \<and> \<not> isProcessing (heap (snd (processTranscription sv_ok world0 ''m1'' ''hi'' ''user-1'')) 0)"
proof -
  have e: "generateGeminiResponse sv_llm_down ''Be kind.'' [\<lparr>role = ''user'', content = ''hi''\<rparr>]
             = Inl (Error ''model unavailable'')"
    "textToSpeech sv_tts_down ''Hello!'' = Inl (Error ''synthesis failed'')"
    "uploadToCloudinary sv_upload_down ''RIFF'' ''m1'' = Inl (Error ''upload timeout'')"
    by (simp_all add: service_defs)
  show ?thesis
    using guards0 e
      processTranscription_releases[OF guards0, where sv=sv_llm_down and transcriptionText="''hi''"]
      processTranscription_releases[OF guards0, where sv=sv_tts_down and transcriptionText="''hi''"]
      processTranscription_releases[OF guards0, where sv=sv_upload_down and transcriptionText="''hi''"]
      processTranscription_releases[OF guards0, where sv=sv_ok and transcriptionText="''hi''"]
    by simp
qed

text \<open>
  C3. When the session is absent, or already in flight, or the speaker is the session's
  agent, \<open>processTranscription\<close> returns normally and leaves the whole state as it was: no
  session is added or removed, and no \<open>conversationHistory\<close>, \<open>audioResponses\<close> or
  \<open>isProcessing\<close> changes.
\<close>

theorem processTranscription_short_circuit:
  "sessions w callId = None
    \<or> (\<exists>r. sessions w callId = Some r
           \<and> (isProcessing (heap w r) \<or> speakerId = agentUserId (heap w r)))
   \<Longrightarrow> processTranscription sv w callId transcriptionText speakerId = (Inr (), w)"
  by (auto simp: processTranscription_def)

theorem processTranscription_short_circuit_witness:
  "sessions world0 ''m2'' = None
   \<and> processTranscription sv_ok world0 ''m2'' ''hi'' ''user-1'' = (Inr (), world0)
   \<and> sessions world_busy ''m1'' = Some 0 \<and> isProcessing (heap world_busy 0)
   \<and> processTranscription sv_ok world_busy ''m1'' ''hi'' ''user-1'' = (Inr (), world_busy)
   \<and> agentUserId (heap world0 0) = ''agent-1''
   \<and> processTranscription sv_ok world0 ''m1'' ''hi'' ''agent-1'' = (Inr (), world0)"
proof -
  have a: "sessions world0 ''m2'' = None" by (simp add: world0_defs)
  have b: "sessions world_busy ''m1'' = Some 0 \<and> isProcessing (heap world_busy 0)"
    by (simp add: world_busy_def world0_defs)
  have c: "sessions world0 ''m1'' = Some 0 \<and> agentUserId (heap world0 0) = ''agent-1''"
    by (simp add: world0_defs)
  have "processTranscription sv_ok world0 ''m2'' ''hi'' ''user-1'' = (Inr (), world0)"
    using a by (intro processTranscription_short_circuit) simp
  moreover have "processTranscription sv_ok world_busy ''m1'' ''hi'' ''user-1''
      = (Inr (), world_busy)"
    using b by (intro processTranscription_short_circuit) simp
  moreover have "processTranscription sv_ok world0 ''m1'' ''hi'' ''agent-1'' = (Inr (), world0)"
    using c by (intro processTranscription_short_circuit) simp
  ultimately show ?thesis using a b c by simp
qed

text \<open>
  C4, as the code has it. For a turn that passes the guards and obtains the reply \<open>reply\<close>
  from the model, the entry \<open>{reply, url, now}\<close> is appended to \<open>audioResponses\<close> when
  synthesis and publication succeed, and the entry \<open>{reply, '', now}\<close> when no synthesis
  client is configured (\<open>textToSpeech\<close> gives \<^verbatim>\<open>null\<close>). When synthesis raises or publication
  fails, \<open>audioResponses\<close> is left as it was: no entry is appended. In each of these cases
  the user message and the reply are the two messages appended to \<open>conversationHistory\<close>,
  the call returns normally and \<open>isProcessing\<close> is false again: after a failed synthesis
  or publication the reply is held by \<open>conversationHistory\<close> only.
\<close>

theorem processTranscription_audio_record:
  assumes "sessions w callId = Some r" and "\<not> isProcessing (heap w r)"
    and "speakerId \<noteq> agentUserId (heap w r)"
    and "generateGeminiResponse sv (instructions (heap w r))
           (conversationHistory (heap w r) @ [\<lparr>role = ''user'', content = transcriptionText\<rparr>])
         = Inr reply"
  shows "audioResponses
           (heap (snd (processTranscription sv w callId transcriptionText speakerId)) r)
     = (case textToSpeech sv reply of
          Inr None \<Rightarrow>
            audioResponses (heap w r)
              @ [\<lparr>reply_text = reply, audioUrl = [], timestamp = now sv\<rparr>]
        | Inr (Some audioBuffer) \<Rightarrow>
            (case uploadToCloudinary sv audioBuffer callId of
               Inr url \<Rightarrow>
                 audioResponses (heap w r)
                   @ [\<lparr>reply_text = reply, audioUrl = url, timestamp = now sv\<rparr>]
             | Inl e \<Rightarrow> audioResponses (heap w r))
        | Inl e \<Rightarrow> audioResponses (heap w r))
    \<and> (textToSpeech sv reply = Inr None \<longleftrightarrow> ttsClient sv = None)
    \<and> conversationHistory
          (heap (snd (processTranscription sv w callId transcriptionText speakerId)) r)
        = conversationHistory (heap w r)
            @ [\<lparr>role = ''user'', content = transcriptionText\<rparr>,
               \<lparr>role = ''assistant'', content = reply\<rparr>]
    \<and> fst (processTranscription sv w callId transcriptionText speakerId) = Inr ()
    \<and> \<not> isProcessing
          (heap (snd (processTranscription sv w callId transcriptionText speakerId)) r)"
  using assms
  by (auto simp: turn_defs textToSpeech_def split: sum.splits option.splits)

theorem processTranscription_audio_record_witness:
  "sessions world0 ''m1'' = Some 0 \<and> \<not> isProcessing (heap world0 0)
   \<and> ''user-1'' \<noteq> agentUserId (heap world0 0)
   \<and> generateGeminiResponse sv_ok (instructions (heap world0 0))
        (conversationHistory (heap world0 0) @ [\<lparr>role = ''user'', content = ''hi''\<rparr>])
       = Inr ''Hello!''
   \<and> audioResponses (heap (snd (processTranscription sv_ok world0 ''m1'' ''hi'' ''user-1'')) 0)
       = [\<lparr>reply_text = ''Hello!'', audioUrl = ''https://res.example/a.wav'', timestamp = 42\<rparr>]
   \<and> audioResponses (heap (snd (processTranscription sv_no_tts world0 ''m1'' ''hi'' ''user-1'')) 0)
       = [\<lparr>reply_text = ''Hello!'', audioUrl = [], timestamp = 42\<rparr>]
   \<and> generateGeminiResponse sv_upload_down (instructions (heap world0 0))
        (conversationHistory (heap world0 0) @ [\<lparr>role = ''user'', content = ''hi''\<rparr>])
       = Inr ''Hello!''
   \<and> uploadToCloudinary sv_upload_down ''RIFF'' ''m1'' = Inl (Error ''upload timeout'')
   \<and> audioResponses
        (heap (snd (processTranscription sv_upload_down world0 ''m1'' ''hi'' ''user-1'')) 0) = []
   \<and> conversationHistory
        (heap (snd (processTranscription sv_upload_down world0 ''m1'' ''hi'' ''user-1'')) 0)
       = [\<lparr>role = ''user'', content = ''hi''\<rparr>, \<lparr>role = ''assistant'', content = ''Hello!''\<rparr>]"
proof -
  have m1: "generateGeminiResponse sv_ok (instructions (heap world0 0))
       (conversationHistory (heap world0 0) @ [\<lparr>role = ''user'', content = ''hi''\<rparr>])
     = Inr ''Hello!''"
    by (simp add: service_defs)
  have m2: "generateGeminiResponse sv_no_tts (instructions (heap world0 0))
       (conversationHistory (heap world0 0) @ [\<lparr>role = ''user'', content = ''hi''\<rparr>])
     = Inr ''Hello!''"
    by (simp add: service_defs)
  have m3: "generateGeminiResponse sv_upload_down (instructions (heap world0 0))
       (conversationHistory (heap world0 0) @ [\<lparr>role = ''user'', content = ''hi''\<rparr>])
     = Inr ''Hello!''"
    by (simp add: service_defs)
  have t1: "textToSpeech sv_ok ''Hello!'' = Inr (Some ''RIFF'')"
    "uploadToCloudinary sv_ok ''RIFF'' ''m1'' = Inr ''https://res.example/a.wav''"
    "now sv_ok = 42"
    by (simp_all add: service_defs)
  have t2: "textToSpeech sv_no_tts ''Hello!'' = Inr None" "now sv_no_tts = 42"
    by (simp_all add: service_defs)
  have t3: "textToSpeech sv_upload_down ''Hello!'' = Inr (Some ''RIFF'')"
    "uploadToCloudinary sv_upload_down ''RIFF'' ''m1'' = Inl (Error ''upload timeout'')"
    by (simp_all add: service_defs)
  have h: "audioResponses (heap world0 0) = []" "conversationHistory (heap world0 0) = []"
    by (simp_all add: world0_defs)
  note a1 = processTranscription_audio_record[OF guards0 m1, THEN conjunct1]
  note a2 = processTranscription_audio_record[OF guards0 m2, THEN conjunct1]
  note a3 = processTranscription_audio_record[OF guards0 m3, THEN conjunct1]
  note c3 = processTranscription_audio_record[OF guards0 m3,
      THEN conjunct2, THEN conjunct2, THEN conjunct1]
  have r1: "audioResponses (heap (snd (processTranscription sv_ok world0 ''m1'' ''hi'' ''user-1'')) 0)
       = [\<lparr>reply_text = ''Hello!'', audioUrl = ''https://res.example/a.wav'', timestamp = 42\<rparr>]"
    using a1 t1 h by simp
  have r2: "audioResponses (heap (snd (processTranscription sv_no_tts world0 ''m1'' ''hi'' ''user-1'')) 0)
       = [\<lparr>reply_text = ''Hello!'', audioUrl = [], timestamp = 42\<rparr>]"
    using a2 t2 h by simp
  have r3: "audioResponses
        (heap (snd (processTranscription sv_upload_down world0 ''m1'' ''hi'' ''user-1'')) 0) = []"
    using a3 t3 h by simp
  have r4: "conversationHistory
        (heap (snd (processTranscription sv_upload_down world0 ''m1'' ''hi'' ''user-1'')) 0)
       = [\<lparr>role = ''user'', content = ''hi''\<rparr>, \<lparr>role = ''assistant'', content = ''Hello!''\<rparr>]"
    using c3 h by simp
  show ?thesis
    using guards0 m1 m3 t3(2) r1 r2 r3 r4 by simp
qed

text \<open>
  Against C4 as the specification states it: the turn passes the guards and the model
  replies \<^verbatim>\<open>Hello!\<close>; publication fails in the first environment, synthesis raises in the
  second; in both no entry is appended (a text-only entry was claimed).
\<close>

theorem processTranscription_failed_audio_counterexample:
  "generateGeminiResponse sv_upload_down (instructions (heap world0 0))
       (conversationHistory (heap world0 0) @ [\<lparr>role = ''user'', content = ''hi''\<rparr>])
     = Inr ''Hello!''
   \<and> textToSpeech sv_upload_down ''Hello!'' = Inr (Some ''RIFF'')
   \<and> uploadToCloudinary sv_upload_down ''RIFF'' ''m1'' = Inl (Error ''upload timeout'')
   \<and> audioResponses
        (heap (snd (processTranscription sv_upload_down world0 ''m1'' ''hi'' ''user-1'')) 0) = []
   \<and> generateGeminiResponse sv_tts_down (instructions (heap world0 0))
       (conversationHistory (heap world0 0) @ [\<lparr>role = ''user'', content = ''hi''\<rparr>])
     = Inr ''Hello!''
   \<and> textToSpeech sv_tts_down ''Hello!'' = Inl (Error ''synthesis failed'')
   \<and> audioResponses
        (heap (snd (processTranscription sv_tts_down world0 ''m1'' ''hi'' ''user-1'')) 0) = []"
  by (simp add: turn_defs service_defs world0_defs)

text \<open>
  C10. When the call of the language model raises in a turn that passed the guards, the
  call of \<open>processTranscription\<close> still returns normally (the error is caught), and the
  state it leaves differs from the one before only by the user message appended to the
  session's \<open>conversationHistory\<close>: no assistant message, no \<open>audioResponses\<close> entry, and
  \<open>isProcessing\<close> is false again.
\<close>

theorem processTranscription_model_error:
  assumes "sessions w callId = Some r" and "\<not> isProcessing (heap w r)"
    and "speakerId \<noteq> agentUserId (heap w r)"
    and "generateGeminiResponse sv (instructions (heap w r))
           (conversationHistory (heap w r) @ [\<lparr>role = ''user'', content = transcriptionText\<rparr>])
         = Inl e"
  shows "processTranscription sv w callId transcriptionText speakerId
       = (Inr (), update_session r (push_message ''user'' transcriptionText) w)
     \<and> conversationHistory
         (heap (snd (processTranscription sv w callId transcriptionText speakerId)) r)
       = conversationHistory (heap w r) @ [\<lparr>role = ''user'', content = transcriptionText\<rparr>]
     \<and> audioResponses
         (heap (snd (processTranscription sv w callId transcriptionText speakerId)) r)
       = audioResponses (heap w r)
     \<and> \<not> isProcessing
           (heap (snd (processTranscription sv w callId transcriptionText speakerId)) r)"
  using assms by (simp add: turn_defs update_session_def idle_update)

theorem processTranscription_model_error_witness:
  "sessions world0 ''m1'' = Some 0 \<and> \<not> isProcessing (heap world0 0)
   \<and> ''user-1'' \<noteq> agentUserId (heap world0 0)
   \<and> generateGeminiResponse sv_llm_down (instructions (heap world0 0))
        (conversationHistory (heap world0 0) @ [\<lparr>role = ''user'', content = ''hi''\<rparr>])
       = Inl (Error ''model unavailable'')
   \<and> fst (processTranscription sv_llm_down world0 ''m1'' ''hi'' ''user-1'') = Inr ()
   \<and> conversationHistory
        (heap (snd (processTranscription sv_llm_down world0 ''m1'' ''hi'' ''user-1'')) 0)
       = [\<lparr>role = ''user'', content = ''hi''\<rparr>]
   \<and> audioResponses
        (heap (snd (processTranscription sv_llm_down world0 ''m1'' ''hi'' ''user-1'')) 0) = []"
proof -
  have m: "generateGeminiResponse sv_llm_down (instructions (heap world0 0))
       (conversationHistory (heap world0 0) @ [\<lparr>role = ''user'', content = ''hi''\<rparr>])
     = Inl (Error ''model unavailable'')"
    by (simp add: service_defs)
  have h: "conversationHistory (heap world0 0) = []" "audioResponses (heap world0 0) = []"
    by (simp_all add: world0_defs)
  note t = processTranscription_model_error[OF guards0 m]
  have f: "fst (processTranscription sv_llm_down world0 ''m1'' ''hi'' ''user-1'') = Inr ()"
    using t by simp
  have c: "conversationHistory
        (heap (snd (processTranscription sv_llm_down world0 ''m1'' ''hi'' ''user-1'')) 0)
       = conversationHistory (heap world0 0) @ [\<lparr>role = ''user'', content = ''hi''\<rparr>]"
    using t by blast
  have a: "audioResponses
        (heap (snd (processTranscription sv_llm_down world0 ''m1'' ''hi'' ''user-1'')) 0)
       = audioResponses (heap world0 0)"
    using t by blast
  show ?thesis
    using guards0 m f c a h by simp
qed

text \<open>With a string for the speaker, the call is \<open>processTranscription\<close> itself.\<close>

lemma processTranscription_any_string:
  "processTranscription_any sv w callId transcriptionText (JStr speakerId)
     = processTranscription sv w callId transcriptionText speakerId"
  by (simp add: processTranscription_any_def)

section \<open>Two overlapping invocations\<close>

text \<open>The segments of a turn, run one after the other, are \<open>processTranscription\<close>.\<close>

lemma run_alone_processTranscription:
  "run_alone sv w (Called callId transcriptionText speakerId)
     = (snd (processTranscription sv w callId transcriptionText speakerId), Returned)"
  by (simp add: run_alone_def turn_defs release_def split: option.splits sum.splits)

lemma resume_in_flight:
  assumes "in_flight a r" and "resume sv w a = (w', a')"
  shows "sessions w' = sessions w \<and> (a' = Returned \<or> in_flight a' r)
     \<and> (in_flight a' r \<longrightarrow> isProcessing (heap w' r) = isProcessing (heap w r))
     \<and> (a' = Returned \<longrightarrow> \<not> isProcessing (heap w' r))"
  using assms
  by (cases "(sv, w, a)" rule: resume.cases)
     (auto simp: release_def push_message_def push_audio_def)

lemma resume_called:
  assumes "sessions w c = Some r" and "resume sv w (Called c t s) = (w', a')"
  shows "sessions w' = sessions w
     \<and> (if isProcessing (heap w r) \<or> s = agentUserId (heap w r)
         then w' = w \<and> a' = Returned
         else in_flight a' r \<and> isProcessing (heap w' r))"
  using assms
  by (cases "isProcessing (heap w r)"; cases "s = agentUserId (heap w r)")
     (auto simp: Let_def push_message_def)

lemma inv_first:
  assumes "single_flight_inv r c a0 b0 (w, a, b)" and "a0 = Called c t s"
    and "resume sv w a = (w', a')"
  shows "single_flight_inv r c a0 b0 (w', a', b)"
proof -
  from assms(1) have i: "sessions w c = Some r" "a = a0 \<or> a = Returned \<or> in_flight a r"
    "b = b0 \<or> b = Returned \<or> in_flight b r" "\<not> (in_flight a r \<and> in_flight b r)"
    "isProcessing (heap w r) = (in_flight a r \<or> in_flight b r)"
    by (simp_all add: single_flight_inv_def)
  from i(2) show ?thesis
  proof (elim disjE)
    assume "a = a0"
    with assms(2,3) have "resume sv w (Called c t s) = (w', a')" by simp
    from resume_called[OF i(1) this] i \<open>a = a0\<close> assms(2) show ?thesis
      by (auto simp: single_flight_inv_def split: if_splits)
  next
    assume "a = Returned"
    with assms(3) i show ?thesis by (auto simp: single_flight_inv_def)
  next
    assume f: "in_flight a r"
    from resume_in_flight[OF f assms(3)] i f show ?thesis
      by (auto simp: single_flight_inv_def)
  qed
qed

lemma inv_second:
  assumes "single_flight_inv r c a0 b0 (w, a, b)" and "b0 = Called c t s"
    and "resume sv w b = (w', b')"
  shows "single_flight_inv r c a0 b0 (w', a, b')"
proof -
  from assms(1) have i: "sessions w c = Some r" "a = a0 \<or> a = Returned \<or> in_flight a r"
    "b = b0 \<or> b = Returned \<or> in_flight b r" "\<not> (in_flight a r \<and> in_flight b r)"
    "isProcessing (heap w r) = (in_flight a r \<or> in_flight b r)"
    by (simp_all add: single_flight_inv_def)
  from i(3) show ?thesis
  proof (elim disjE)
    assume "b = b0"
    with assms(2,3) have "resume sv w (Called c t s) = (w', b')" by simp
    from resume_called[OF i(1) this] i \<open>b = b0\<close> assms(2) show ?thesis
      by (auto simp: single_flight_inv_def split: if_splits)
  next
    assume "b = Returned"
    with assms(3) i show ?thesis by (auto simp: single_flight_inv_def)
  next
    assume f: "in_flight b r"
    from resume_in_flight[OF f assms(3)] i f show ?thesis
      by (auto simp: single_flight_inv_def)
  qed
qed

lemma inv_interleave:
  assumes "a0 = Called c t1 s1" and "b0 = Called c t2 s2"
  shows "single_flight_inv r c a0 b0 cfg \<Longrightarrow> single_flight_inv r c a0 b0 (interleave sched cfg)"
proof (induction sched arbitrary: cfg)
  case Nil
  then show ?case by simp
next
  case (Cons x sched)
  obtain p sv where x: "x = (p, sv)" by (cases x)
  obtain w a b where cfg: "cfg = (w, a, b)" by (cases cfg)
  show ?case
  proof (cases p)
    case First
    obtain w' a' where r: "resume sv w a = (w', a')" by (cases "resume sv w a")
    from inv_first[OF Cons.prems[unfolded cfg] assms(1) r]
    have "single_flight_inv r c a0 b0 (w', a', b)" .
    from Cons.IH[OF this] show ?thesis using x cfg First r by simp
  next
    case Second
    obtain w' b' where r: "resume sv w b = (w', b')" by (cases "resume sv w b")
    from inv_second[OF Cons.prems[unfolded cfg] assms(2) r]
    have "single_flight_inv r c a0 b0 (w', a, b')" .
    from Cons.IH[OF this] show ?thesis using x cfg Second r by simp
  qed
qed

text \<open>
  C2. Two invocations of \<open>processTranscription\<close> on the same session, both called while the
  session is idle, interleaved in any way at their \<^verbatim>\<open>await\<close>s and with any answers of the
  environment. At every point of every schedule: the two are never both past the guard;
  \<open>isProcessing\<close> is true exactly while one of them is; while one is past the guard and has
  not returned, the first segment of the other returns at once and leaves the state
  untouched (a pure no-op); and when neither is, an invocation whose speaker is not the
  agent does get past the guard. The check and the entry are one uninterrupted segment of
  the source, which is what makes the flag act as a mutex.
\<close>

theorem single_flight:
  assumes "sessions w callId = Some r" and "\<not> isProcessing (heap w r)"
    and "interleave sched (w, Called callId t1 s1, Called callId t2 s2) = (w', a, b)"
  shows "sessions w' callId = Some r
    \<and> \<not> (in_flight a r \<and> in_flight b r)
    \<and> (isProcessing (heap w' r) \<longleftrightarrow> in_flight a r \<or> in_flight b r)
    \<and> (in_flight a r \<and> b = Called callId t2 s2 \<longrightarrow> resume sv w' b = (w', Returned))
    \<and> (in_flight b r \<and> a = Called callId t1 s1 \<longrightarrow> resume sv w' a = (w', Returned))
    \<and> (\<not> in_flight a r \<and> b = Called callId t2 s2 \<and> s2 \<noteq> agentUserId (heap w' r) \<longrightarrow>
          in_flight (snd (resume sv w' b)) r)
    \<and> (\<not> in_flight b r \<and> a = Called callId t1 s1 \<and> s1 \<noteq> agentUserId (heap w' r) \<longrightarrow>
          in_flight (snd (resume sv w' a)) r)"
proof -
  have "single_flight_inv r callId (Called callId t1 s1) (Called callId t2 s2)
          (w, Called callId t1 s1, Called callId t2 s2)"
    using assms(1,2) by (simp add: single_flight_inv_def)
  from inv_interleave[OF refl refl this, of sched] assms(3)
  have i: "sessions w' callId = Some r" "\<not> (in_flight a r \<and> in_flight b r)"
    "isProcessing (heap w' r) = (in_flight a r \<or> in_flight b r)"
    by (simp_all add: single_flight_inv_def)
  show ?thesis using i by (auto simp: Let_def)
qed

theorem single_flight_witness:
  "sessions world0 ''m1'' = Some 0 \<and> \<not> isProcessing (heap world0 0)
   \<and> interleave [(First, sv_ok)]
        (world0, Called ''m1'' ''one'' ''user-1'', Called ''m1'' ''two'' ''user-2'')
       = (world_one, AwaitReply 0 ''m1'' ''one'' (Inr ''Hello!''),
          Called ''m1'' ''two'' ''user-2'')
   \<and> in_flight (AwaitReply 0 ''m1'' ''one'' (Inr ''Hello!'')) 0
   \<and> isProcessing (heap world_one 0)
   \<and> resume sv_ok world_one (Called ''m1'' ''two'' ''user-2'') = (world_one, Returned)
   \<and> ''user-2'' \<noteq> agentUserId (heap world0 0)
   \<and> in_flight (snd (resume sv_ok world0 (Called ''m1'' ''two'' ''user-2''))) 0
   \<and> ''user-1'' \<noteq> agentUserId (heap world0 0)
   \<and> in_flight (snd (resume sv_ok world0 (Called ''m1'' ''one'' ''user-1''))) 0"
proof -
  have g: "sessions world0 ''m1'' = Some 0" "\<not> isProcessing (heap world0 0)"
    by (simp_all add: world0_defs)
  have s: "interleave [(First, sv_ok)]
        (world0, Called ''m1'' ''one'' ''user-1'', Called ''m1'' ''two'' ''user-2'')
       = (world_one, AwaitReply 0 ''m1'' ''one'' (Inr ''Hello!''),
          Called ''m1'' ''two'' ''user-2'')"
    by (simp add: world_one_def world0_defs service_defs Let_def push_message_def)
  have s0: "interleave []
        (world0, Called ''m1'' ''one'' ''user-1'', Called ''m1'' ''two'' ''user-2'')
       = (world0, Called ''m1'' ''one'' ''user-1'', Called ''m1'' ''two'' ''user-2'')"
    by simp
  have f: "in_flight (AwaitReply 0 ''m1'' ''one'' (Inr ''Hello!'')) 0"
    "\<not> in_flight (Called ''m1'' ''one'' ''user-1'') 0"
    "\<not> in_flight (Called ''m1'' ''two'' ''user-2'') 0"
    by simp_all
  have u: "''user-2'' \<noteq> agentUserId (heap world0 0)" "''user-1'' \<noteq> agentUserId (heap world0 0)"
    by (simp_all add: world0_defs)
  note t = single_flight[OF g s, where sv = sv_ok]
  note t0 = single_flight[OF g s0, where sv = sv_ok]
  from t f have p: "isProcessing (heap world_one 0)" by blast
  from t f have n: "resume sv_ok world_one (Called ''m1'' ''two'' ''user-2'')
      = (world_one, Returned)" by blast
  from t0 f u have e2: "in_flight (snd (resume sv_ok world0 (Called ''m1'' ''two'' ''user-2''))) 0"
    by blast
  from t0 f u have e1: "in_flight (snd (resume sv_ok world0 (Called ''m1'' ''one'' ''user-1''))) 0"
    by blast
  show ?thesis using g s f p n u e1 e2 by blast
qed

section \<open>Properties of the webhook\<close>

lemma POST_delivered: "delivered sv req = Some payload \<Longrightarrow> POST sv req w = route sv payload w"
  by (auto simp: delivered_def authenticated_def POST_def split: option.splits if_splits)

lemma route_started:
  "event_type payload = Some (JStr ''call.session_started'') \<Longrightarrow>
     route sv payload w = on_session_started sv payload w"
  by (simp add: route_def)

lemma route_ended:
  "event_type payload = Some (JStr ''call.session_ended'') \<Longrightarrow>
     route sv payload w = on_session_ended sv payload w"
  by (simp add: route_def)

lemma started_meetings:
  "meetings (snd (on_session_started sv payload w)) mid = Some m' \<Longrightarrow> status m' = Active \<Longrightarrow>
    \<exists>m. meetings w mid = Some m \<and> (status m = Active \<or> eligible m)"
  by (auto simp: on_session_started_def startSession_def Let_def
      split: sum.splits option.splits if_splits)

lemma started_rejected:
  assumes "custom_meetingId payload = Inr (Some (JStr mid))" "mid \<noteq> []" "storage_up sv"
    "meetings w mid = None \<or> (\<exists>m. meetings w mid = Some m \<and> \<not> eligible m)"
  shows "on_session_started sv payload w = (Inr (Response 404 ''Meeting not found''), w)"
  using assms by (auto simp: on_session_started_def text_id_def)

lemma started_accepted:
  assumes "custom_meetingId payload = Inr (Some (JStr mid))" "mid \<noteq> []" "storage_up sv"
    "meetings w mid = Some m" "eligible m"
  shows "\<exists>m'. meetings (snd (on_session_started sv payload w)) mid = Some m' \<and> status m' = Active"
  using assms by (auto simp: on_session_started_def text_id_def startSession_def Let_def split: option.splits)

lemma ended:
  assumes "custom_meetingId payload = Inr (Some (JStr mid))" "mid \<noteq> []"
  shows "on_session_ended sv payload w =
     (if storage_up sv then (Inr ok, to_processing sv mid (endSession w mid))
      else (Inl (Error ''storage''), endSession w mid))"
  using assms by (simp add: on_session_ended_def text_id_def Let_def)

lemma to_processing_sessions [simp]: "sessions (to_processing sv mid w) = sessions w"
  by (simp add: to_processing_def split: option.splits)












lemma route_caption:
  "event_type p = Some (JStr ''call.closed_caption'') \<Longrightarrow>
     route sv p w = on_closed_caption sv p w"
  by (simp add: route_def)






lemma started_changes:
  assumes "meetings (snd (on_session_started sv payload w)) mid = Some m'"
    and "status m' = Active" and "meetings w mid \<noteq> Some m'"
  shows "\<exists>m. meetings w mid = Some m \<and> eligible m"
  using assms
  by (auto simp: on_session_started_def startSession_def Let_def
      split: sum.splits option.splits if_splits)

lemma started_unchanged:
  assumes "custom_meetingId payload = Inr (Some (JStr mid))"
    and "meetings w mid = None \<or> (\<exists>m. meetings w mid = Some m \<and> \<not> eligible m)"
  shows "snd (on_session_started sv payload w) = w
     \<and> (mid \<noteq> [] \<and> storage_up sv \<longrightarrow>
          fst (on_session_started sv payload w) = Inr (Response 404 ''Meeting not found''))"
  using assms by (auto simp: on_session_started_def text_id_def)

text \<open>
  A \<^verbatim>\<open>call.session_started\<close> request (authenticated and parsed) that no other request
  interrupts between its \<^verbatim>\<open>await\<close>s: a meeting row that the
  request changes and that is active afterwards had a status outside
  \<open>{Active, Completed, Cancelled, Processing}\<close>; when the meeting named by the event is absent
  or has one of these statuses, the request leaves the whole state as it was (no status
  change, no session started or replaced) and, storage answering, is rejected with 404;
  and when the meeting has a status outside the set, it is active afterwards.
\<close>

theorem session_started_guard:
  assumes "delivered sv req = Some payload"
    and "event_type payload = Some (JStr ''call.session_started'')"
  shows "(\<forall>mid m'. meetings (snd (POST sv req w)) mid = Some m' \<and> status m' = Active
             \<and> meetings w mid \<noteq> Some m' \<longrightarrow>
           (\<exists>m. meetings w mid = Some m
                \<and> status m \<notin> {Active, Completed, Cancelled, Processing}))
    \<and> (\<forall>mid. custom_meetingId payload = Inr (Some (JStr mid))
             \<and> (meetings w mid = None
                 \<or> (\<exists>m. meetings w mid = Some m
                         \<and> status m \<in> {Active, Completed, Cancelled, Processing})) \<longrightarrow>
           snd (POST sv req w) = w
           \<and> (mid \<noteq> [] \<and> storage_up sv \<longrightarrow>
                fst (POST sv req w) = Inr (Response 404 ''Meeting not found'')))
    \<and> (\<forall>mid m. custom_meetingId payload = Inr (Some (JStr mid)) \<and> mid \<noteq> [] \<and> storage_up sv
             \<and> meetings w mid = Some m
             \<and> status m \<notin> {Active, Completed, Cancelled, Processing} \<longrightarrow>
           (\<exists>m'. meetings (snd (POST sv req w)) mid = Some m' \<and> status m' = Active))"
proof -
  have p: "POST sv req w = on_session_started sv payload w"
    using assms by (simp add: POST_delivered route_started)
  have e: "\<And>m. eligible m \<longleftrightarrow> status m \<notin> {Active, Completed, Cancelled, Processing}"
    by (simp add: eligible_def)
  show ?thesis
    unfolding p
  proof (intro conjI allI impI)
    fix mid m'
    assume "meetings (snd (on_session_started sv payload w)) mid = Some m' \<and> status m' = Active
             \<and> meetings w mid \<noteq> Some m'"
    then show "\<exists>m. meetings w mid = Some m
                \<and> status m \<notin> {Active, Completed, Cancelled, Processing}"
      using started_changes[of sv payload w mid m'] e by blast
  next
    fix mid
    assume a: "custom_meetingId payload = Inr (Some (JStr mid))
             \<and> (meetings w mid = None
                 \<or> (\<exists>m. meetings w mid = Some m
                         \<and> status m \<in> {Active, Completed, Cancelled, Processing}))"
    then have "meetings w mid = None \<or> (\<exists>m. meetings w mid = Some m \<and> \<not> eligible m)"
      using e by blast
    from started_unchanged[OF _ this, of payload sv] a
    show "snd (on_session_started sv payload w) = w"
      and "mid \<noteq> [] \<and> storage_up sv \<Longrightarrow>
           fst (on_session_started sv payload w) = Inr (Response 404 ''Meeting not found'')"
      by blast+
  next
    fix mid m
    assume "custom_meetingId payload = Inr (Some (JStr mid)) \<and> mid \<noteq> [] \<and> storage_up sv
             \<and> meetings w mid = Some m
             \<and> status m \<notin> {Active, Completed, Cancelled, Processing}"
    then show "\<exists>m'. meetings (snd (on_session_started sv payload w)) mid = Some m'
                 \<and> status m' = Active"
      using started_accepted[of payload mid sv w m] e by blast
  qed
qed

text \<open>
  C8. On a \<^verbatim>\<open>call.session_ended\<close> event naming the meeting \<open>mid\<close>, the session of \<open>mid\<close> is
  removed in every case: the state left is the guarded transition applied to the state
  with the session already removed, or, when the storage call fails, just the state with
  the session removed (the removal came first). When the meeting is absent or not active
  the transition changes no meeting, and the session is removed all the same.
\<close>

theorem session_ended_removes_session:
  assumes "delivered sv req = Some payload"
    and "event_type payload = Some (JStr ''call.session_ended'')"
    and "custom_meetingId payload = Inr (Some (JStr mid))" and "mid \<noteq> []"
  shows "sessions (snd (POST sv req w)) mid = None
    \<and> snd (POST sv req w)
        = (if storage_up sv then to_processing sv mid (endSession w mid) else endSession w mid)
    \<and> fst (POST sv req w) = (if storage_up sv then Inr ok else Inl (Error ''storage''))
    \<and> (meetings w mid = None \<or> (\<exists>m. meetings w mid = Some m \<and> status m \<noteq> Active) \<longrightarrow>
          meetings (snd (POST sv req w)) = meetings w)
    \<and> (\<forall>m. storage_up sv \<and> meetings w mid = Some m \<and> status m = Active \<longrightarrow>
          meetings (snd (POST sv req w)) mid
            = Some (m\<lparr>status := Processing, endedAt := Some (now sv)\<rparr>))"
proof -
  have p: "POST sv req w = on_session_ended sv payload w"
    using assms(1,2) by (simp add: POST_delivered route_ended)
  show ?thesis
    unfolding p ended[OF assms(3,4)]
    by (auto simp: endSession_def to_processing_def split: option.splits)
qed

lemmas event_defs = req0_def sv_event_def sv_ok_def started_event_def ended_event_def
  left_event_def caption_event_def delivered_def authenticated_def present_def event_type_def
  custom_meetingId_def

lemma delivered0: "delivered (sv_event e) req0 = Some e"
  by (simp add: event_defs)

lemma sv_event_up: "storage_up (sv_event e)" "upsert_first (sv_event e)" "now (sv_event e) = 42"
  by (simp_all add: event_defs)

lemma started_event_facts:
  "event_type started_event = Some (JStr ''call.session_started'')"
  "custom_meetingId started_event = Inr (Some (JStr ''m1''))"
  by (simp_all add: event_defs)

lemma ended_event_facts:
  "event_type ended_event = Some (JStr ''call.session_ended'')"
  "custom_meetingId ended_event = Inr (Some (JStr ''m1''))"
  by (simp_all add: event_defs)

theorem session_started_guard_witness:
  "delivered (sv_event started_event) req0 = Some started_event
   \<and> event_type started_event = Some (JStr ''call.session_started'')
   \<and> custom_meetingId started_event = Inr (Some (JStr ''m1''))
   \<and> meetings world0 ''m1'' = Some meeting0 \<and> status meeting0 = Upcoming
   \<and> meetings (snd (POST (sv_event started_event) req0 world0)) ''m1''
       = Some (meeting0\<lparr>status := Active, startedAt := Some 42\<rparr>)
   \<and> (\<exists>m. meetings world0 ''m1'' = Some m
           \<and> status m \<notin> {Active, Completed, Cancelled, Processing})
   \<and> meetings world_done ''m1'' = Some (meeting0\<lparr>status := Completed\<rparr>)
   \<and> POST (sv_event started_event) req0 world_done
       = (Inr (Response 404 ''Meeting not found''), world_done)"
proof -
  have m: "meetings world0 ''m1'' = Some meeting0" "status meeting0 = Upcoming"
    "meetings world_done ''m1'' = Some (meeting0\<lparr>status := Completed\<rparr>)"
    by (simp_all add: world_done_def world0_defs)
  note t0 = session_started_guard[OF delivered0 started_event_facts(1), of world0]
  note t1 = session_started_guard[OF delivered0 started_event_facts(1), of world_done]
  have p: "POST (sv_event started_event) req0 world0
             = on_session_started (sv_event started_event) started_event world0"
    by (simp add: POST_delivered[OF delivered0] route_started[OF started_event_facts(1)])
  have a: "meetings (snd (POST (sv_event started_event) req0 world0)) ''m1''
       = Some (meeting0\<lparr>status := Active, startedAt := Some 42\<rparr>)"
    unfolding p
    by (simp add: on_session_started_def started_event_facts(2) sv_event_up text_id_def
        eligible_def startSession_def Let_def world0_defs)
  have a': "status (meeting0\<lparr>status := Active, startedAt := Some 42\<rparr>) = Active"
    "meetings world0 ''m1'' \<noteq> Some (meeting0\<lparr>status := Active, startedAt := Some 42\<rparr>)"
    by (simp_all add: world0_defs)
  have pre: "meetings (snd (POST (sv_event started_event) req0 world0)) ''m1''
         = Some (meeting0\<lparr>status := Active, startedAt := Some 42\<rparr>)
       \<and> status (meeting0\<lparr>status := Active, startedAt := Some 42\<rparr>) = Active
       \<and> meetings world0 ''m1'' \<noteq> Some (meeting0\<lparr>status := Active, startedAt := Some 42\<rparr>)"
    by (intro conjI) (rule a, rule a'(1), rule a'(2))
  have c: "\<exists>m. meetings world0 ''m1'' = Some m
           \<and> status m \<notin> {Active, Completed, Cancelled, Processing}"
    by (rule t0[THEN conjunct1, rule_format, OF pre])
  have "snd (POST (sv_event started_event) req0 world_done) = world_done
    \<and> fst (POST (sv_event started_event) req0 world_done) = Inr (Response 404 ''Meeting not found'')"
    using t1 started_event_facts(2) sv_event_up(1) m(3) by simp
  then have b: "POST (sv_event started_event) req0 world_done
       = (Inr (Response 404 ''Meeting not found''), world_done)"
    by (simp add: prod_eq_iff)
  show ?thesis using delivered0 started_event_facts m a c b by simp
qed

theorem session_ended_removes_session_witness:
  "delivered (sv_event ended_event) req0 = Some ended_event
   \<and> event_type ended_event = Some (JStr ''call.session_ended'')
   \<and> custom_meetingId ended_event = Inr (Some (JStr ''m1''))
   \<and> sessions world0 ''m1'' = Some 0
   \<and> meetings world0 ''m1'' = Some meeting0 \<and> status meeting0 = Upcoming
   \<and> sessions (snd (POST (sv_event ended_event) req0 world0)) ''m1'' = None
   \<and> meetings (snd (POST (sv_event ended_event) req0 world0)) = meetings world0
   \<and> fst (POST (sv_event ended_event) req0 world0) = Inr ok
   \<and> sessions world_live ''m1'' = Some 0
   \<and> meetings world_live ''m1'' = Some (meeting0\<lparr>status := Active\<rparr>)
   \<and> sessions (snd (POST (sv_event ended_event) req0 world_live)) ''m1'' = None
   \<and> meetings (snd (POST (sv_event ended_event) req0 world_live)) ''m1''
       = Some (meeting0\<lparr>status := Processing, endedAt := Some 42\<rparr>)"
proof -
  have m: "meetings world0 ''m1'' = Some meeting0" "status meeting0 = Upcoming"
    "sessions world0 ''m1'' = Some 0"
    by (simp_all add: world0_defs)
  have v: "sessions world_live ''m1'' = Some 0"
    "meetings world_live ''m1'' = Some (meeting0\<lparr>status := Active\<rparr>)"
    "status (meeting0\<lparr>status := Active\<rparr>) = Active"
    by (simp_all add: world_live_def world0_defs)
  have n: "''m1'' \<noteq> []" by simp
  note t = session_ended_removes_session[OF delivered0 ended_event_facts n, of world0]
  note t' = session_ended_removes_session[OF delivered0 ended_event_facts n, of world_live]
  have a: "sessions (snd (POST (sv_event ended_event) req0 world0)) ''m1'' = None"
    using t by blast
  have u: "\<exists>m. meetings world0 ''m1'' = Some m \<and> status m \<noteq> Active"
    using m by simp
  have b: "meetings (snd (POST (sv_event ended_event) req0 world0)) = meetings world0"
    using t u by blast
  have "fst (POST (sv_event ended_event) req0 world0)
      = (if storage_up (sv_event ended_event) then Inr ok else Inl (Error ''storage''))"
    using t by blast
  then have c: "fst (POST (sv_event ended_event) req0 world0) = Inr ok"
    using sv_event_up(1) by simp
  have a': "sessions (snd (POST (sv_event ended_event) req0 world_live)) ''m1'' = None"
    using t' by blast
  have "meetings (snd (POST (sv_event ended_event) req0 world_live)) ''m1''
       = Some (meeting0\<lparr>status := Active\<rparr>\<lparr>status := Processing,
                 endedAt := Some (now (sv_event ended_event))\<rparr>)"
    using t' v sv_event_up(1) by blast
  then have d: "meetings (snd (POST (sv_event ended_event) req0 world_live)) ''m1''
       = Some (meeting0\<lparr>status := Processing, endedAt := Some 42\<rparr>)"
    by (simp add: sv_event_up(3))
  show ?thesis using delivered0 ended_event_facts m v a b c a' d by simp
qed




lemma caption_event_facts:
  "delivered sv_caption_llm_down req0 = Some caption_event"
  "event_type caption_event = Some (JStr ''call.closed_caption'')"
  by (simp_all add: sv_caption_llm_down_def event_defs)

lemma caption_llm_down_acknowledged: "fst (POST sv_caption_llm_down req0 world0) = Inr ok"
  apply (simp add: POST_delivered[OF caption_event_facts(1)] route_caption[OF caption_event_facts(2)])
  apply (simp add: on_closed_caption_def caption_meetingId_def opt_split_def second_part_def
      ensureGeminiSessionForMeeting_def hasSession_def caption_speaker_def opt_get_def
      caption_event_def caption_defs world0_defs split_beta present_def)
  done


section \<open>Creation of sessions\<close>

lemma ensure_existing:
  "hasSession w meetingId \<Longrightarrow> ensureGeminiSessionForMeeting sv w meetingId = (True, w)"
  by (simp add: ensureGeminiSessionForMeeting_def)

lemma ensure_absent:
  "\<not> hasSession w meetingId \<Longrightarrow>
     ensureGeminiSessionForMeeting sv w meetingId = (False, w)
     \<or> (\<exists>m a. meetings w meetingId = Some m \<and> agents w (agentId m) = Some a
            \<and> ensureGeminiSessionForMeeting sv w meetingId
                = (True, startSession w meetingId (agentId m) (agent_instructions a)))"
  by (auto simp: ensureGeminiSessionForMeeting_def split: option.splits)

lemma started_session:
  assumes "custom_meetingId payload = Inr (Some (JStr mid))" "mid \<noteq> []" "storage_up sv"
    "meetings w mid = Some m" "eligible m" "agents w (agentId m) = Some a"
    "upsert_first sv \<or> upsert_retry sv"
  shows "snd (on_session_started sv payload w)
     = startSession (w\<lparr>meetings := (meetings w)(mid \<mapsto> m\<lparr>status := Active, startedAt := Some (now sv)\<rparr>)\<rparr>)
         mid (agentId m) (agent_instructions a)"
  using assms by (auto simp: on_session_started_def text_id_def Let_def)

lemma ensure_alone_whole:
  "ensure_alone sv w (EnsureCalled meetingId)
     = (snd (ensureGeminiSessionForMeeting sv w meetingId),
        EnsureReturned (fst (ensureGeminiSessionForMeeting sv w meetingId)))"
  by (simp add: ensure_alone_def ensureGeminiSessionForMeeting_def split: option.splits)

lemma ensure_resume_quiet:
  "(\<And>meetingId m a. t \<noteq> EnsureProvision meetingId m a) \<Longrightarrow> fst (ensure_resume sv w t) = w"
  by (cases "(sv, w, t)" rule: ensure_resume.cases) auto

lemma started_alone_whole:
  "started_alone sv w (StartedCalled event)
     = (snd (on_session_started sv event w), StartedReturned (fst (on_session_started sv event w)))"
  by (auto simp: started_alone_def on_session_started_def select_eligible_def set_active_def Let_def
      split: option.splits sum.splits)

text \<open>
  C6, as the code has it. The lazy path, \<open>ensureGeminiSessionForMeeting\<close>: when a session
  exists for the id at the call, the first segment answers true and leaves the state
  untouched, whatever other requests are under way, so the call neither replaces the
  session nor resets its \<open>conversationHistory\<close>; no segment before the last writes the
  state; and a call that no other request interrupts between its \<^verbatim>\<open>await\<close>s, when no session
  exists, either fails with the state untouched or creates one (the meeting and its agent
  resolve). The explicit path: \<open>startSession\<close> stores a new session object with an empty
  \<open>conversationHistory\<close> under the call id whatever the store held; the last segment of the
  \<^verbatim>\<open>call.session_started\<close> branch, the agent provisioned, is that \<open>startSession\<close> on the state
  as it is then; and a \<^verbatim>\<open>call.session_started\<close> request that no other request interrupts,
  that the status guard accepts, whose agent resolves and is provisioned, ends with that
  new session under the meeting id, whether or not a session existed for it.
\<close>

theorem session_creation_paths:
  "(hasSession w meetingId \<longrightarrow>
      ensure_resume sv w (EnsureCalled meetingId) = (w, EnsureReturned True))
   \<and> ((\<forall>c m a. t \<noteq> EnsureProvision c m a) \<longrightarrow> fst (ensure_resume sv w t) = w)
   \<and> ensure_alone sv w (EnsureCalled meetingId)
       = (snd (ensureGeminiSessionForMeeting sv w meetingId),
          EnsureReturned (fst (ensureGeminiSessionForMeeting sv w meetingId)))
   \<and> (hasSession w meetingId \<longrightarrow> ensureGeminiSessionForMeeting sv w meetingId = (True, w))
   \<and> (\<not> hasSession w meetingId \<longrightarrow>
        ensureGeminiSessionForMeeting sv w meetingId = (False, w)
        \<or> (\<exists>m a. meetings w meetingId = Some m \<and> agents w (agentId m) = Some a
              \<and> ensureGeminiSessionForMeeting sv w meetingId
                  = (True, startSession w meetingId (agentId m) (agent_instructions a))))
   \<and> sessions (startSession w callId agent_id instr) callId = Some (next_ref w)
   \<and> heap (startSession w callId agent_id instr) (next_ref w)
       = \<lparr>call = callId, agentUserId = agent_id, instructions = instr,
          conversationHistory = [], isProcessing = False, audioResponses = []\<rparr>
   \<and> (upsert_first sv \<or> upsert_retry sv \<longrightarrow>
        started_resume sv w (StartedProvision callId existingMeeting existingAgent)
          = (startSession w callId (agentId existingMeeting) (agent_instructions existingAgent),
             StartedReturned (Inr ok)))
   \<and> started_alone sv w (StartedCalled event)
       = (snd (on_session_started sv event w), StartedReturned (fst (on_session_started sv event w)))
   \<and> (\<forall>payload mid m a.
         delivered sv req = Some payload
         \<and> event_type payload = Some (JStr ''call.session_started'')
         \<and> custom_meetingId payload = Inr (Some (JStr mid)) \<and> mid \<noteq> [] \<and> storage_up sv
         \<and> meetings w mid = Some m
         \<and> status m \<notin> {Active, Completed, Cancelled, Processing}
         \<and> agents w (agentId m) = Some a \<and> (upsert_first sv \<or> upsert_retry sv) \<longrightarrow>
         sessions (snd (POST sv req w)) mid = Some (next_ref w)
         \<and> conversationHistory (heap (snd (POST sv req w)) (next_ref w)) = [])"
proof (intro conjI allI impI)
  show "hasSession w meetingId \<Longrightarrow>
      ensure_resume sv w (EnsureCalled meetingId) = (w, EnsureReturned True)"
    by simp
  show "\<forall>c m a. t \<noteq> EnsureProvision c m a \<Longrightarrow> fst (ensure_resume sv w t) = w"
    by (rule ensure_resume_quiet) simp
  show "ensure_alone sv w (EnsureCalled meetingId)
       = (snd (ensureGeminiSessionForMeeting sv w meetingId),
          EnsureReturned (fst (ensureGeminiSessionForMeeting sv w meetingId)))"
    by (rule ensure_alone_whole)
  show "hasSession w meetingId \<Longrightarrow> ensureGeminiSessionForMeeting sv w meetingId = (True, w)"
    by (rule ensure_existing)
  show "\<not> hasSession w meetingId \<Longrightarrow>
        ensureGeminiSessionForMeeting sv w meetingId = (False, w)
        \<or> (\<exists>m a. meetings w meetingId = Some m \<and> agents w (agentId m) = Some a
              \<and> ensureGeminiSessionForMeeting sv w meetingId
                  = (True, startSession w meetingId (agentId m) (agent_instructions a)))"
    by (rule ensure_absent)
  show "sessions (startSession w callId agent_id instr) callId = Some (next_ref w)"
    by (simp add: startSession_def)
  show "heap (startSession w callId agent_id instr) (next_ref w)
       = \<lparr>call = callId, agentUserId = agent_id, instructions = instr,
          conversationHistory = [], isProcessing = False, audioResponses = []\<rparr>"
    by (simp add: startSession_def)
  show "upsert_first sv \<or> upsert_retry sv \<Longrightarrow>
        started_resume sv w (StartedProvision callId existingMeeting existingAgent)
          = (startSession w callId (agentId existingMeeting) (agent_instructions existingAgent),
             StartedReturned (Inr ok))"
    by simp
  show "started_alone sv w (StartedCalled event)
       = (snd (on_session_started sv event w), StartedReturned (fst (on_session_started sv event w)))"
    by (rule started_alone_whole)
next
  fix payload mid m a
  assume h: "delivered sv req = Some payload
         \<and> event_type payload = Some (JStr ''call.session_started'')
         \<and> custom_meetingId payload = Inr (Some (JStr mid)) \<and> mid \<noteq> [] \<and> storage_up sv
         \<and> meetings w mid = Some m
         \<and> status m \<notin> {Active, Completed, Cancelled, Processing}
         \<and> agents w (agentId m) = Some a \<and> (upsert_first sv \<or> upsert_retry sv)"
  then have p: "POST sv req w = on_session_started sv payload w"
    by (simp add: POST_delivered route_started)
  from h have e: "eligible m" by (simp add: eligible_def)
  from h e have s: "snd (on_session_started sv payload w)
     = startSession (w\<lparr>meetings := (meetings w)(mid \<mapsto> m\<lparr>status := Active, startedAt := Some (now sv)\<rparr>)\<rparr>)
         mid (agentId m) (agent_instructions a)"
    by (intro started_session) auto
  show "sessions (snd (POST sv req w)) mid = Some (next_ref w)"
    unfolding p s by (simp add: startSession_def)
  show "conversationHistory (heap (snd (POST sv req w)) (next_ref w)) = []"
    unfolding p s by (simp add: startSession_def)
qed

text \<open>
  Against C6 as the specification states it: a session exists for \<^verbatim>\<open>m1\<close> with two messages
  in its history (created on a caption that came first), the meeting is still upcoming,
  and \<^verbatim>\<open>call.session_started\<close> arrives: the session of \<^verbatim>\<open>m1\<close> is then another object and its
  history is empty.
\<close>

theorem session_started_replaces_session_counterexample:
  "hasSession world_chat ''m1'' \<and> sessions world_chat ''m1'' = Some 0
   \<and> conversationHistory (heap world_chat 0)
       = [\<lparr>role = ''user'', content = ''hi''\<rparr>, \<lparr>role = ''assistant'', content = ''Hello!''\<rparr>]
   \<and> delivered (sv_event started_event) req0 = Some started_event
   \<and> event_type started_event = Some (JStr ''call.session_started'')
   \<and> fst (POST (sv_event started_event) req0 world_chat) = Inr ok
   \<and> sessions (snd (POST (sv_event started_event) req0 world_chat)) ''m1'' = Some 1
   \<and> conversationHistory (heap (snd (POST (sv_event started_event) req0 world_chat)) 1) = []"
proof -
  have a: "hasSession world_chat ''m1''" "sessions world_chat ''m1'' = Some 0"
    "conversationHistory (heap world_chat 0)
       = [\<lparr>role = ''user'', content = ''hi''\<rparr>, \<lparr>role = ''assistant'', content = ''Hello!''\<rparr>]"
    by (simp_all add: world_chat_def hasSession_def push_message_def world0_defs)
  have p: "POST (sv_event started_event) req0 world_chat
             = on_session_started (sv_event started_event) started_event world_chat"
    by (simp add: POST_delivered[OF delivered0] route_started[OF started_event_facts(1)])
  have b: "fst (POST (sv_event started_event) req0 world_chat) = Inr ok"
    "sessions (snd (POST (sv_event started_event) req0 world_chat)) ''m1'' = Some 1"
    "conversationHistory (heap (snd (POST (sv_event started_event) req0 world_chat)) 1) = []"
    unfolding p
    by (simp_all add: on_session_started_def started_event_facts(2) sv_event_up text_id_def
        eligible_def startSession_def Let_def world_chat_def world0_defs)
  show ?thesis using a b delivered0[of started_event] started_event_facts(1) by simp
qed

theorem session_creation_paths_witness:
  "hasSession world_chat ''m1''
   \<and> ensure_resume sv_ok world_chat (EnsureCalled ''m1'') = (world_chat, EnsureReturned True)
   \<and> fst (ensure_resume sv_ok world_chat (EnsureMeeting ''m1'' (Some meeting0))) = world_chat
   \<and> ensureGeminiSessionForMeeting sv_ok world_chat ''m1'' = (True, world_chat)
   \<and> hasSession world_idle ''m1'' = False
   \<and> ensureGeminiSessionForMeeting sv_ok world_idle ''m1''
       = (True, startSession world_idle ''m1'' ''agent-1'' ''Be kind.'')
   \<and> ensure_alone sv_ok world_idle (EnsureCalled ''m1'')
       = (startSession world_idle ''m1'' ''agent-1'' ''Be kind.'', EnsureReturned True)
   \<and> upsert_first sv_ok
   \<and> started_resume sv_ok world_chat (StartedProvision ''m1'' meeting0
         \<lparr>agent_name = ''Ann'', agent_instructions = ''Be kind.''\<rparr>)
       = (startSession world_chat ''m1'' ''agent-1'' ''Be kind.'', StartedReturned (Inr ok))
   \<and> delivered (sv_event started_event) req0 = Some started_event
   \<and> event_type started_event = Some (JStr ''call.session_started'')
   \<and> custom_meetingId started_event = Inr (Some (JStr ''m1''))
   \<and> meetings world_chat ''m1'' = Some meeting0 \<and> status meeting0 = Upcoming
   \<and> next_ref world_chat = 1
   \<and> sessions (snd (POST (sv_event started_event) req0 world_chat)) ''m1'' = Some 1
   \<and> conversationHistory (heap (snd (POST (sv_event started_event) req0 world_chat)) 1) = []"
proof -
  note t = session_creation_paths[where w = world_chat and meetingId = "''m1''" and sv = sv_ok
      and t = "EnsureMeeting ''m1'' (Some meeting0)" and callId = "''m1''"
      and existingMeeting = meeting0
      and existingAgent = "\<lparr>agent_name = ''Ann'', agent_instructions = ''Be kind.''\<rparr>"]
  note ti = session_creation_paths[where w = world_idle and meetingId = "''m1''" and sv = sv_ok]
  have a: "hasSession world_chat ''m1''" "hasSession world_idle ''m1'' = False"
    by (simp_all add: world_chat_def world_idle_def endSession_def hasSession_def world0_defs)
  have u: "upsert_first sv_ok" by (simp add: sv_ok_def)
  have b1: "ensure_resume sv_ok world_chat (EnsureCalled ''m1'') = (world_chat, EnsureReturned True)"
    using t[THEN conjunct1] a(1) by (rule mp)
  have b2: "fst (ensure_resume sv_ok world_chat (EnsureMeeting ''m1'' (Some meeting0))) = world_chat"
    using t[THEN conjunct2, THEN conjunct1] by simp
  have b: "ensureGeminiSessionForMeeting sv_ok world_chat ''m1'' = (True, world_chat)"
    using t[THEN conjunct2, THEN conjunct2, THEN conjunct2, THEN conjunct1] a(1) by (rule mp)
  have c: "ensureGeminiSessionForMeeting sv_ok world_idle ''m1''
       = (True, startSession world_idle ''m1'' ''agent-1'' ''Be kind.'')"
  proof -
    have i: "meetings world_idle ''m1'' = Some meeting0" "agentId meeting0 = ''agent-1''"
      "agents world_idle ''agent-1''
         = Some \<lparr>agent_name = ''Ann'', agent_instructions = ''Be kind.''\<rparr>"
      "storage_up sv_ok"
      by (simp_all add: world_idle_def endSession_def sv_ok_def world0_defs)
    show ?thesis by (simp add: ensureGeminiSessionForMeeting_def a(2) i)
  qed
  have c2: "ensure_alone sv_ok world_idle (EnsureCalled ''m1'')
       = (startSession world_idle ''m1'' ''agent-1'' ''Be kind.'', EnsureReturned True)"
    using ti[THEN conjunct2, THEN conjunct2, THEN conjunct1] by (simp add: c)
  have g: "agentId meeting0 = ''agent-1''" by (simp add: meeting0_def)
  have e: "started_resume sv_ok world_chat (StartedProvision ''m1'' meeting0
         \<lparr>agent_name = ''Ann'', agent_instructions = ''Be kind.''\<rparr>)
       = (startSession world_chat ''m1'' ''agent-1'' ''Be kind.'', StartedReturned (Inr ok))"
    using t[THEN conjunct2, THEN conjunct2, THEN conjunct2, THEN conjunct2, THEN conjunct2,
        THEN conjunct2, THEN conjunct2, THEN conjunct1] u by (simp add: g)
  have m: "meetings world_chat ''m1'' = Some meeting0" "status meeting0 = Upcoming"
    "agents world_chat (agentId meeting0)
       = Some \<lparr>agent_name = ''Ann'', agent_instructions = ''Be kind.''\<rparr>"
    "next_ref world_chat = 1"
    by (simp_all add: world_chat_def world0_defs)
  have h: "delivered (sv_event started_event) req0 = Some started_event
         \<and> event_type started_event = Some (JStr ''call.session_started'')
         \<and> custom_meetingId started_event = Inr (Some (JStr ''m1'')) \<and> ''m1'' \<noteq> []
         \<and> storage_up (sv_event started_event)
         \<and> meetings world_chat ''m1'' = Some meeting0
         \<and> status meeting0 \<notin> {Active, Completed, Cancelled, Processing}
         \<and> agents world_chat (agentId meeting0)
             = Some \<lparr>agent_name = ''Ann'', agent_instructions = ''Be kind.''\<rparr>
         \<and> (upsert_first (sv_event started_event) \<or> upsert_retry (sv_event started_event))"
    using delivered0[of started_event] started_event_facts sv_event_up m by simp
  have d: "sessions (snd (POST (sv_event started_event) req0 world_chat)) ''m1''
             = Some (next_ref world_chat)
         \<and> conversationHistory
              (heap (snd (POST (sv_event started_event) req0 world_chat)) (next_ref world_chat))
             = []"
    using session_creation_paths[where w = world_chat and sv = "sv_event started_event"
        and req = req0, THEN conjunct2, THEN conjunct2, THEN conjunct2, THEN conjunct2,
        THEN conjunct2, THEN conjunct2, THEN conjunct2, THEN conjunct2, THEN conjunct2,
        rule_format, OF h] .
  show ?thesis
    using a b b1 b2 c c2 u e delivered0[of started_event] started_event_facts m d by simp
qed

section \<open>Overlapping requests\<close>

lemma idle_facts:
  "sessions world_idle ''m1'' = None" "meetings world_idle ''m1'' = Some meeting0"
  "agents world_idle ''agent-1'' = Some \<lparr>agent_name = ''Ann'', agent_instructions = ''Be kind.''\<rparr>"
  "next_ref world_idle = 1" "agentId meeting0 = ''agent-1''" "status meeting0 = Upcoming"
  by (simp_all add: world_idle_def endSession_def world0_defs)

lemma sv_late_facts:
  "storage_up sv_late" "upsert_first sv_late" "now sv_late = 99"
  by (simp_all add: sv_late_def sv_event_def sv_ok_def)

lemma world_started_facts:
  "fst (POST (sv_event started_event) req0 world_idle) = Inr ok"
  "meetings world_started ''m1'' = Some (meeting0\<lparr>status := Active, startedAt := Some 42\<rparr>)"
  "sessions world_started ''m1'' = Some 1"
  "agents world_started = agents world_idle"
  "next_ref world_started = 2"
proof -
  have p: "POST (sv_event started_event) req0 world_idle
             = on_session_started (sv_event started_event) started_event world_idle"
    by (simp add: POST_delivered[OF delivered0] route_started[OF started_event_facts(1)])
  have n: "now (sv_event started_event) = 42" by (simp add: sv_event_def sv_ok_def)
  have q: "on_session_started (sv_event started_event) started_event world_idle
     = (Inr ok, startSession (world_idle\<lparr>meetings := (meetings world_idle)(''m1'' \<mapsto>
          meeting0\<lparr>status := Active, startedAt := Some 42\<rparr>)\<rparr>) ''m1'' ''agent-1'' ''Be kind.'')"
    by (simp add: on_session_started_def started_event_facts(2) sv_event_up text_id_def
        eligible_def Let_def idle_facts n)
  show "fst (POST (sv_event started_event) req0 world_idle) = Inr ok" by (simp add: p q)
  show "meetings world_started ''m1'' = Some (meeting0\<lparr>status := Active, startedAt := Some 42\<rparr>)"
    "sessions world_started ''m1'' = Some 1" "agents world_started = agents world_idle"
    "next_ref world_started = 2"
    by (simp_all add: world_started_def p q startSession_def idle_facts)
qed

lemma world_ended_facts:
  "fst (POST (sv_event ended_event) req0 world_started) = Inr ok"
  "meetings world_ended ''m1'' = Some (meeting0\<lparr>status := Processing, startedAt := Some 42, endedAt := Some 42\<rparr>)"
  "sessions world_ended ''m1'' = None"
  "agents world_ended = agents world_idle"
  "next_ref world_ended = 2"
proof -
  have p: "POST (sv_event ended_event) req0 world_started
             = on_session_ended (sv_event ended_event) ended_event world_started"
    by (simp add: POST_delivered[OF delivered0] route_ended[OF ended_event_facts(1)])
  have n: "now (sv_event ended_event) = 42" by (simp add: sv_event_def sv_ok_def)
  show "fst (POST (sv_event ended_event) req0 world_started) = Inr ok"
  "meetings world_ended ''m1'' = Some (meeting0\<lparr>status := Processing, startedAt := Some 42, endedAt := Some 42\<rparr>)"
  "sessions world_ended ''m1'' = None"
  "agents world_ended = agents world_idle"
  "next_ref world_ended = 2"
    unfolding world_ended_def p
    by (simp_all add: on_session_ended_def ended_event_facts sv_event_up text_id_def
        to_processing_def endSession_def Let_def world_started_facts n)
qed


text \<open>
  C5 fails in the code when deliveries overlap. The select of the \<^verbatim>\<open>call.session_started\<close>
  branch carries the four status conditions; the update that follows it, after an \<^verbatim>\<open>await\<close>,
  names the row by id only. A first delivery of \<^verbatim>\<open>call.session_started\<close> for the upcoming
  meeting \<^verbatim>\<open>m1\<close> is suspended at its select, which has found the meeting upcoming. A second
  delivery of the event is handled: the meeting is active and session 1 is stored. A
  \<^verbatim>\<open>call.session_ended\<close> is handled: the session is removed and the meeting is processing.
  The first delivery resumes: it is acknowledged, the meeting is active again, from
  processing, with a new start time, and session 2 is stored. (The two requests in between
  are acknowledged too: \<open>world_started_facts\<close>, \<open>world_ended_facts\<close>.)
\<close>

theorem session_started_overlap_reactivates:
  "started_resume (sv_event started_event) world_idle (StartedCalled started_event)
     = (world_idle, StartedSelect (Some (''m1'', meeting0)))
   \<and> map_option status (meetings world_started ''m1'') = Some Active
   \<and> sessions world_started ''m1'' = Some 1
   \<and> map_option status (meetings world_ended ''m1'') = Some Processing
   \<and> sessions world_ended ''m1'' = None
   \<and> snd (started_alone sv_late world_ended (StartedSelect (Some (''m1'', meeting0))))
       = StartedReturned (Inr ok)
   \<and> map_option status (meetings world_restarted ''m1'') = Some Active
   \<and> map_option startedAt (meetings world_restarted ''m1'') = Some (Some 99)
   \<and> sessions world_restarted ''m1'' = Some 2"
proof -
  have a: "started_resume (sv_event started_event) world_idle (StartedCalled started_event)
     = (world_idle, StartedSelect (Some (''m1'', meeting0)))"
    by (simp add: started_event_facts(2) sv_event_up select_eligible_def text_id_def
        eligible_def idle_facts)
  have r: "started_alone sv_late world_ended (StartedSelect (Some (''m1'', meeting0)))
     = (startSession (set_active sv_late ''m1'' world_ended) ''m1'' ''agent-1'' ''Be kind.'',
        StartedReturned (Inr ok))"
    by (simp add: started_alone_def sv_late_facts set_active_def world_ended_facts idle_facts)
  have b: "map_option status (meetings world_restarted ''m1'') = Some Active"
    "map_option startedAt (meetings world_restarted ''m1'') = Some (Some 99)"
    "sessions world_restarted ''m1'' = Some 2"
    by (simp_all add: world_restarted_def r startSession_def set_active_def world_ended_facts
        sv_late_facts)
  show ?thesis using a b by (simp add: r world_started_facts world_ended_facts)
qed

text \<open>
  Two caption requests for \<^verbatim>\<open>m1\<close> overlap while no session exists: the first is suspended
  after its test of \<open>hasSession\<close>; the second creates session 1 and a turn fills its
  history; the first resumes and stores session 2, whose history is empty.
\<close>

lemma ensure_overlap_replaces:
  "ensure_resume sv_ok world_idle (EnsureCalled ''m1'') = (world_idle, EnsureMeeting ''m1'' (Some meeting0))
   \<and> sessions world_lazy_chat ''m1'' = Some 1
   \<and> conversationHistory (heap world_lazy_chat 1)
       = [\<lparr>role = ''user'', content = ''hi''\<rparr>, \<lparr>role = ''assistant'', content = ''Hello!''\<rparr>]
   \<and> snd (ensure_alone sv_ok world_lazy_chat (EnsureMeeting ''m1'' (Some meeting0))) = EnsureReturned True
   \<and> sessions (fst (ensure_alone sv_ok world_lazy_chat (EnsureMeeting ''m1'' (Some meeting0)))) ''m1'' = Some 2
   \<and> conversationHistory
        (heap (fst (ensure_alone sv_ok world_lazy_chat (EnsureMeeting ''m1'' (Some meeting0)))) 2) = []"
proof -
  have s: "storage_up sv_ok" by (simp add: sv_ok_def)
  have a: "ensure_resume sv_ok world_idle (EnsureCalled ''m1'') = (world_idle, EnsureMeeting ''m1'' (Some meeting0))"
    by (simp add: hasSession_def idle_facts s)
  have l: "world_lazy = startSession world_idle ''m1'' ''agent-1'' ''Be kind.''"
    by (simp add: world_lazy_def ensure_alone_def hasSession_def idle_facts s)
  have c: "sessions world_lazy_chat ''m1'' = Some 1"
    "conversationHistory (heap world_lazy_chat 1)
       = [\<lparr>role = ''user'', content = ''hi''\<rparr>, \<lparr>role = ''assistant'', content = ''Hello!''\<rparr>]"
    "agents world_lazy_chat = agents world_idle" "next_ref world_lazy_chat = 2"
    by (simp_all add: world_lazy_chat_def l startSession_def idle_facts turn_defs service_defs
        sv_ok_def update_session_def)
  have e: "ensure_alone sv_ok world_lazy_chat (EnsureMeeting ''m1'' (Some meeting0))
     = (startSession world_lazy_chat ''m1'' ''agent-1'' ''Be kind.'', EnsureReturned True)"
    by (simp add: ensure_alone_def s c idle_facts)
  show ?thesis using a c by (simp add: e startSession_def)
qed

end
